theory Spec2Isabelle
  imports Main
begin

section \<open>The pgmetrics sender: \<^verbatim>\<open>src/scripts/sendPgmetrics.ts\<close>\<close>

text \<open>
  The script loads its settings from the process environment, checks them, and then runs
  an endless loop: ask the service for admission, run the collector into a temporary
  file, read and delete the file, ask for an upload URL, PUT the payload, confirm.

  The embedding makes every effect of the script a value. A function that talks to the
  outside world takes the world's answer as an argument and returns, next to its result,
  the list of effects it performed, in order (\<open>event list\<close>). An exception is a value
  of type \<open>thrown\<close> on the left of a sum. The file system is a map from paths to
  contents.

  Conventions. A JavaScript string is represented by its UTF-8 bytes, so that
  \<^verbatim>\<open>Buffer.byteLength\<close> is \<open>length\<close>. A file is its bytes; reading it with the \<^verbatim>\<open>utf-8\<close>
  encoding decodes them, which changes bytes that are no valid UTF-8. Numbers are
  integers (timestamps and durations in milliseconds, sizes in bytes). The texts of
  the console lines are not modelled: a console line is a constructor of \<open>log_line\<close>
  that carries the values the source interpolates into it.
\<close>

subsection \<open>String operations of the runtime\<close>

text \<open>\<^verbatim>\<open>a ?? b\<close>: the left operand unless it is \<^verbatim>\<open>undefined\<close> or \<^verbatim>\<open>null\<close>.\<close>

definition nullish :: "'a option \<Rightarrow> 'a \<Rightarrow> 'a" where
  "nullish v d = (case v of None \<Rightarrow> d | Some x \<Rightarrow> x)"

text \<open>Truthiness of an optional string and of an optional number.\<close>

definition truthy_str :: "string option \<Rightarrow> bool" where
  "truthy_str v = (case v of None \<Rightarrow> False | Some s \<Rightarrow> s \<noteq> [])"

definition truthy_num :: "int option \<Rightarrow> bool" where
  "truthy_num v = (case v of None \<Rightarrow> False | Some n \<Rightarrow> n \<noteq> 0)"

text \<open>
  The white space that \<^verbatim>\<open>String.prototype.trim\<close> removes (the white space and line
  terminator code points of ECMAScript), each as its UTF-8 bytes: U+0009 to U+000D,
  U+0020, U+00A0, U+1680, U+2000 to U+200A, U+2028, U+2029, U+202F, U+205F, U+3000 and
  U+FEFF.
\<close>

definition white_space :: "string list" where
  "white_space =
     [[CHR 0x09], [CHR 0x0A], [CHR 0x0B], [CHR 0x0C], [CHR 0x0D], [CHR 0x20],
      [CHR 0xC2, CHR 0xA0],
      [CHR 0xE1, CHR 0x9A, CHR 0x80],
      [CHR 0xE2, CHR 0x80, CHR 0x80], [CHR 0xE2, CHR 0x80, CHR 0x81],
      [CHR 0xE2, CHR 0x80, CHR 0x82], [CHR 0xE2, CHR 0x80, CHR 0x83],
      [CHR 0xE2, CHR 0x80, CHR 0x84], [CHR 0xE2, CHR 0x80, CHR 0x85],
      [CHR 0xE2, CHR 0x80, CHR 0x86], [CHR 0xE2, CHR 0x80, CHR 0x87],
      [CHR 0xE2, CHR 0x80, CHR 0x88], [CHR 0xE2, CHR 0x80, CHR 0x89],
      [CHR 0xE2, CHR 0x80, CHR 0x8A],
      [CHR 0xE2, CHR 0x80, CHR 0xA8], [CHR 0xE2, CHR 0x80, CHR 0xA9],
      [CHR 0xE2, CHR 0x80, CHR 0xAF],
      [CHR 0xE2, CHR 0x81, CHR 0x9F],
      [CHR 0xE3, CHR 0x80, CHR 0x80],
      [CHR 0xEF, CHR 0xBB, CHR 0xBF]]"

text \<open>\<open>strip seqs s\<close>: \<open>s\<close> without the sequences of \<open>seqs\<close> that it starts with.\<close>

function strip :: "string list \<Rightarrow> string \<Rightarrow> string" where
  "strip seqs s =
     (case find (\<lambda>w. w \<noteq> [] \<and> take (length w) s = w) seqs of
        None \<Rightarrow> s
      | Some w \<Rightarrow> strip seqs (drop (length w) s))"
  by pat_completeness auto
termination
proof (relation "measure (\<lambda>(seqs, s). length s)")
  show "wf (measure (\<lambda>(seqs, s). length s))" by simp
next
  fix seqs :: "string list" and s w :: string
  assume "find (\<lambda>w. w \<noteq> [] \<and> take (length w) s = w) seqs = Some w"
  then have "w \<noteq> []" and "take (length w) s = w"
    by (auto simp: find_Some_iff)
  then have "s \<noteq> []" and "0 < length w" by auto
  then show "((seqs, drop (length w) s), (seqs, s)) \<in> measure (\<lambda>(seqs, s). length s)"
    by (cases s) auto
qed

declare strip.simps [simp del]

text \<open>\<^verbatim>\<open>String.prototype.trim\<close>: the white space at the start and at the end is removed.\<close>

definition trim :: "string \<Rightarrow> string" where
  "trim s = rev (strip (map rev white_space) (rev (strip white_space s)))"

text \<open>The lower case of an ASCII character, and whether a character is ASCII.\<close>

definition lower_char :: "char \<Rightarrow> char" where
  "lower_char c =
     (case map_of (zip ''ABCDEFGHIJKLMNOPQRSTUVWXYZ'' ''abcdefghijklmnopqrstuvwxyz'') c of
        None \<Rightarrow> c | Some l \<Rightarrow> l)"

definition ascii :: "char \<Rightarrow> bool" where
  "ascii c = ((of_char c :: nat) < 128)"

text \<open>
  \<^verbatim>\<open>s.split(c)\<close> for a one-character separator: the pieces between the separators,
  never an empty array (\<^verbatim>\<open>''.split(',')\<close> is \<^verbatim>\<open>['']\<close>).
\<close>

fun split_on :: "char \<Rightarrow> string \<Rightarrow> string list" where
  "split_on c [] = [[]]"
| "split_on c (x # xs) =
     (if x = c then [] # split_on c xs
      else (case split_on c xs of [] \<Rightarrow> [[x]] | w # ws \<Rightarrow> (x # w) # ws))"

text \<open>\<^verbatim>\<open>xs[i]\<close>: \<^verbatim>\<open>undefined\<close> out of range.\<close>

definition at_index :: "'a list \<Rightarrow> nat \<Rightarrow> 'a option" where
  "at_index xs i = (if i < length xs then Some (xs ! i) else None)"

text \<open>\<^verbatim>\<open>xs.indexOf(x)\<close>: the first index of \<open>x\<close>, or \<open>-1\<close>.\<close>

fun indexOf :: "'a list \<Rightarrow> 'a \<Rightarrow> int" where
  "indexOf [] x = -1"
| "indexOf (y # ys) x =
     (if y = x then 0 else (let i = indexOf ys x in if i < 0 then -1 else i + 1))"

text \<open>
  \<^verbatim>\<open>xs.splice(start, 0, x)\<close>: insert \<open>x\<close> before position \<open>start\<close>; a negative start counts
  from the end, and the position is clamped to the array.
\<close>

definition splice_insert :: "'a list \<Rightarrow> int \<Rightarrow> 'a \<Rightarrow> 'a list" where
  "splice_insert xs start x =
     (let n = int (length xs);
          k = nat (if start < 0 then max (n + start) 0 else min start n)
      in take k xs @ [x] @ drop k xs)"

text \<open>\<^verbatim>\<open>n.toString()\<close> for an integer.\<close>

fun string_of_nat :: "nat \<Rightarrow> string" where
  "string_of_nat n =
     (if n < 10 then [''0123456789'' ! n]
      else string_of_nat (n div 10) @ [''0123456789'' ! (n mod 10)])"

declare string_of_nat.simps [simp del]

definition string_of_int :: "int \<Rightarrow> string" where
  "string_of_int i =
     (if i < 0 then CHR ''-'' # string_of_nat (nat (- i)) else string_of_nat (nat i))"

text \<open>\<^verbatim>\<open>Math.ceil(w / 1000)\<close> on an integer \<open>w\<close>.\<close>

definition ceil_seconds :: "int \<Rightarrow> int" where
  "ceil_seconds w = - ((- w) div 1000)"

subsection \<open>The outside world\<close>

text \<open>A thrown value: an \<^verbatim>\<open>Error\<close> with its message, or something that is no \<^verbatim>\<open>Error\<close>.\<close>

datatype thrown = ErrorObj string | NonError

definition message_or :: "thrown \<Rightarrow> string \<Rightarrow> string" where
  "message_or err d = (case err of ErrorObj m \<Rightarrow> m | NonError \<Rightarrow> d)"

text \<open>
  The fields the script reads from a JSON body, with the types of its casts. A field that
  is \<^verbatim>\<open>null\<close> behaves as an absent one at every use (\<^verbatim>\<open>??\<close> and truthiness).
\<close>

record body_fields =
  b_error :: "string option"
  b_reason :: "string option"
  b_nextCollectionAt :: "int option"
  b_url :: "string option"

definition no_fields :: body_fields where
  "no_fields = \<lparr> b_error = None, b_reason = None, b_nextCollectionAt = None, b_url = None \<rparr>"

definition error_only :: "string \<Rightarrow> body_fields" where
  "error_only e = no_fields \<lparr> b_error := Some e \<rparr>"

text \<open>
  What parsing JSON gives: a failure (with what it throws), the value \<^verbatim>\<open>null\<close>, on which
  reading a property throws, or any other value, of which only the four fields matter.
\<close>

datatype json_result = ParseError thrown | JsonNull | JsonData body_fields

record response =
  resp_status :: nat
  resp_body :: json_result

text \<open>\<^verbatim>\<open>response.ok\<close>\<close>

definition ok :: "response \<Rightarrow> bool" where
  "ok r = (200 \<le> resp_status r \<and> resp_status r \<le> 299)"

text \<open>\<^verbatim>\<open>fetch\<close> rejects, or resolves to a response.\<close>

datatype fetch_result = Threw thrown | Responded response

text \<open>
  \<^verbatim>\<open>await response.json().catch(() => d)\<close>: the default when the body does not parse;
  \<open>None\<close> stands for the parsed value \<^verbatim>\<open>null\<close>.
\<close>

definition json_catch :: "json_result \<Rightarrow> body_fields \<Rightarrow> body_fields option" where
  "json_catch b d = (case b of ParseError _ \<Rightarrow> Some d | JsonNull \<Rightarrow> None | JsonData f \<Rightarrow> Some f)"

text \<open>
  The parts of the runtime whose results the script depends on and that are no part of
  the repository: \<^verbatim>\<open>JSON.parse\<close>, \<^verbatim>\<open>new URL(u).pathname\<close> (which throws on a string
  that is no URL), the message of the \<^verbatim>\<open>TypeError\<close> of a property read on \<^verbatim>\<open>null\<close>, the
  message of \<^verbatim>\<open>readFileSync\<close> and \<^verbatim>\<open>unlinkSync\<close> on a missing file, the decoding of a
  file's bytes as \<^verbatim>\<open>utf-8\<close> (the string it gives, as UTF-8 bytes again), and the lower
  case of a string that has characters outside ASCII.
\<close>

record runtime =
  json_parse :: "string \<Rightarrow> json_result"
  url_pathname :: "string \<Rightarrow> thrown + string"
  null_read_message :: "string \<Rightarrow> string"
  no_file_message :: "string \<Rightarrow> string"
  read_utf8 :: "string \<Rightarrow> string"
  unicode_lower :: "string \<Rightarrow> string"

text \<open>
  \<^verbatim>\<open>String.prototype.toLowerCase\<close>: on a string of ASCII characters the letters \<open>A\<close> to
  \<open>Z\<close> become \<open>a\<close> to \<open>z\<close> and nothing else changes; on any other string it is what
  the runtime's Unicode case mapping gives.
\<close>

definition toLowerCase :: "runtime \<Rightarrow> string \<Rightarrow> string" where
  "toLowerCase rt s = (if list_all ascii s then map lower_char s else unicode_lower rt s)"

record request =
  req_method :: string
  req_url :: string
  req_headers :: "(string \<times> string) list"
  req_body :: "string option"

text \<open>The four places where the script calls \<^verbatim>\<open>fetch\<close>.\<close>

datatype call_site = Admission | Target | Transfer | Confirm

text \<open>
  The console lines of lines 85 to 289, one constructor for each, in the order of the
  source, with the values the line shows.
\<close>

datatype log_line =
    Precheck403 string string
  | Blocked403
  | Precheck404 string
  | Blocked404
  | PrecheckRateLimit int
  | PrecheckOther string
  | PrecheckCaughtRate string int
  | PrecheckCaught string
  | GetUrl403 string string
  | GetUrl404 string
  | GetUrlOther string
  | GetUrlCaught string
  | UploadCaught string
  | FinishedCaught string
  | BackendYes string
  | SizeMB nat
  | UrlLine string
  | Uploaded bool
  | Finished bool
  | LoopError thrown

text \<open>
  The effects: a call of \<^verbatim>\<open>fetch\<close> (also one that rejects), a console line, a wait
  (\<^verbatim>\<open>await new Promise((r) => setTimeout(r, ms))\<close>), a call of \<^verbatim>\<open>spawnSync\<close> with the
  arguments and the variables set for the subprocess, and the calls of \<^verbatim>\<open>readFileSync\<close>
  and \<^verbatim>\<open>unlinkSync\<close> (also those that throw).
\<close>

datatype event =
    Fetch call_site request
  | Log log_line
  | Sleep int
  | Spawn "string list" "(string \<times> string) list"
  | ReadFile string
  | Unlink string

type_synonym files = "string \<rightharpoonup> string"

subsection \<open>Configuration (lines 7 to 42)\<close>

record config =
  TEST_MODE :: bool
  SERVER_ID :: "string option"
  API_BASE_URL :: string
  PGPASSWORD :: string
  PGUSER :: string
  PGHOST :: string
  PGPORT :: string
  PG_DATABASES :: string
  ALL_DBS :: bool
  PG_TIMEOUT :: string
  PG_OMIT :: string
  PG_SQL_LENGTH :: string
  PG_STATEMENTS_LIMIT :: string
  serverId :: string
  API_URL :: string

text \<open>
  \<open>env\<close> is \<^verbatim>\<open>process.env\<close> (after \<^verbatim>\<open>dotenv\<close> has filled it in), \<open>argv\<close> is
  \<^verbatim>\<open>process.argv\<close>; the runtime is there for \<^verbatim>\<open>toLowerCase\<close>.
\<close>

definition load_config :: "runtime \<Rightarrow> (string \<rightharpoonup> string) \<Rightarrow> string list \<Rightarrow> config" where
  "load_config rt env argv =
     (let test_mode = (env ''TEST_MODE'' = Some ''1'' \<or> env ''TEST_MODE'' = Some ''true''
                        \<or> ''--test'' \<in> set argv);
          server_id = (case env ''SERVER_ID'' of None \<Rightarrow> at_index argv 2 | Some s \<Rightarrow> Some s);
          api_base_url = nullish (env ''API_BASE_URL'') ''https://metrics.ggpanel.site'';
          pg_databases = toLowerCase rt (trim (nullish (env ''PG_DATABASES'') ''all''))
      in \<lparr> TEST_MODE = test_mode,
           SERVER_ID = server_id,
           API_BASE_URL = api_base_url,
           PGPASSWORD = nullish (env ''PG_PASSWORD'') ''postgres'',
           PGUSER = nullish (env ''PG_USER'') ''postgres'',
           PGHOST = nullish (env ''PG_HOST'') ''/var/run/postgresql'',
           PGPORT = nullish (env ''PG_PORT'') ''5432'',
           PG_DATABASES = pg_databases,
           ALL_DBS = (pg_databases = ''all'' \<or> pg_databases = []),
           PG_TIMEOUT = nullish (env ''PG_TIMEOUT'') ''60'',
           PG_OMIT = nullish (env ''PG_OMIT'') ''log'',
           PG_SQL_LENGTH = nullish (env ''PG_SQL_LENGTH'') ''10000'',
           PG_STATEMENTS_LIMIT = nullish (env ''PG_STATEMENTS_LIMIT'') ''10000'',
           serverId = nullish server_id ''test'',
           API_URL = api_base_url @ ''/pgmetrics'' \<rparr>)"

text \<open>
  The checks at module level. \<^verbatim>\<open>process.exit(1)\<close> ends the process: \<open>Exited 1 m\<close>, with
  the message written to the error stream. Otherwise the script goes on into the test
  run (line 44) or into the send loop (line 291).
\<close>

datatype fatal = MissingServerId | MissingPassword

datatype startup_outcome = Exited nat fatal | TestRun config | SendLoop config

definition startup ::
  "runtime \<Rightarrow> (string \<rightharpoonup> string) \<Rightarrow> string list \<Rightarrow> startup_outcome" where
  "startup rt env argv =
     (let cfg = load_config rt env argv in
      if \<not> TEST_MODE cfg \<and> \<not> truthy_str (SERVER_ID cfg) then Exited 1 MissingServerId
      else if PGPASSWORD cfg = [] \<and> PGHOST cfg \<noteq> ''/var/run/postgresql''
        then Exited 1 MissingPassword
      else if TEST_MODE cfg then TestRun cfg
      else SendLoop cfg)"

subsection \<open>The admission check: \<^verbatim>\<open>shouldSend\<close> (lines 85 to 136)\<close>

definition admission_request :: "config \<Rightarrow> request" where
  "admission_request cfg =
     \<lparr> req_method = ''GET'', req_url = API_BASE_URL cfg @ ''/request-upload'',
       req_headers = [(''x-server-id'', serverId cfg)], req_body = None \<rparr>"

text \<open>\<^verbatim>\<open>data.reason ? ` (${data.reason})` : ''\<close>\<close>

definition reason_suffix :: "body_fields \<Rightarrow> string" where
  "reason_suffix d =
     (if truthy_str (b_reason d) then '' ('' @ nullish (b_reason d) [] @ '')'' else [])"

text \<open>\<^verbatim>\<open>data.nextCollectionAt ? Math.max(0, data.nextCollectionAt - Date.now()) : 2500\<close>\<close>

definition rate_limit_wait :: "body_fields \<Rightarrow> int \<Rightarrow> int" where
  "rate_limit_wait d now =
     (if truthy_num (b_nextCollectionAt d)
      then max 0 (nullish (b_nextCollectionAt d) 0 - now) else 2500)"

text \<open>
  The body of the \<^verbatim>\<open>try\<close> (lines 87 to 118). \<open>reply\<close> is what \<^verbatim>\<open>fetch\<close> does, \<open>now\<close> is
  what \<^verbatim>\<open>Date.now()\<close> returns. A rejected \<^verbatim>\<open>fetch\<close> and a property read on a body that
  is \<^verbatim>\<open>null\<close> throw.
\<close>

definition shouldSend_try ::
  "runtime \<Rightarrow> config \<Rightarrow> fetch_result \<Rightarrow> int \<Rightarrow> (thrown + bool) \<times> event list" where
  "shouldSend_try rt cfg reply now =
     (let sent = [Fetch Admission (admission_request cfg)] in
      case reply of
        Threw err \<Rightarrow> (Inl err, sent)
      | Responded response \<Rightarrow>
          if resp_status response = 403 then
            (case json_catch (resp_body response) (error_only ''Forbidden'') of
               None \<Rightarrow> (Inl (ErrorObj (null_read_message rt ''reason'')), sent)
             | Some d \<Rightarrow>
                 (Inr False,
                  sent @ [Log (Precheck403 (nullish (b_error d) ''Forbidden'') (reason_suffix d)),
                          Log Blocked403, Sleep 30000]))
          else if resp_status response = 404 then
            (case json_catch (resp_body response) (error_only ''User not found'') of
               None \<Rightarrow> (Inl (ErrorObj (null_read_message rt ''error'')), sent)
             | Some d \<Rightarrow>
                 (Inr False,
                  sent @ [Log (Precheck404 (nullish (b_error d) ''User not found'')),
                          Log Blocked404, Sleep 30000]))
          else if resp_status response = 429 then
            (case json_catch (resp_body response) no_fields of
               None \<Rightarrow> (Inl (ErrorObj (null_read_message rt ''nextCollectionAt'')), sent)
             | Some d \<Rightarrow>
                 (let waitTime = rate_limit_wait d now in
                  (Inr False,
                   sent @ [Log (PrecheckRateLimit (ceil_seconds waitTime)), Sleep waitTime])))
          else if \<not> ok response then
            (let http = ''HTTP '' @ string_of_nat (resp_status response) in
             case json_catch (resp_body response) (error_only http) of
               None \<Rightarrow> (Inl (ErrorObj (null_read_message rt ''error'')), sent)
             | Some d \<Rightarrow>
                 (Inr False, sent @ [Log (PrecheckOther (nullish (b_error d) http)), Sleep 2500]))
          else (Inr True, sent))"

text \<open>
  The \<^verbatim>\<open>catch\<close> (lines 119 to 135): the message is parsed as JSON, inside a \<^verbatim>\<open>try\<close>
  of its own; a truthy \<^verbatim>\<open>nextCollectionAt\<close> in it gives the wait.
\<close>

definition shouldSend_catch :: "runtime \<Rightarrow> thrown \<Rightarrow> int \<Rightarrow> (thrown + bool) \<times> event list" where
  "shouldSend_catch rt err now =
     (let errorMessage = message_or err ''Unknown error'';
          plain = (2500, [Log (PrecheckCaught errorMessage)]);
          (waitTime, logged) =
            (case json_parse rt errorMessage of
               ParseError _ \<Rightarrow> plain
             | JsonNull \<Rightarrow> plain
             | JsonData parsed \<Rightarrow>
                 if truthy_num (b_nextCollectionAt parsed) then
                   (let w = max 0 (nullish (b_nextCollectionAt parsed) 0 - now) in
                    (w, [Log (PrecheckCaughtRate (nullish (b_error parsed) ''Rate limit exceeded'')
                               (ceil_seconds w))]))
                 else plain)
      in (Inr False, logged @ [Sleep waitTime]))"

definition shouldSend ::
  "runtime \<Rightarrow> config \<Rightarrow> fetch_result \<Rightarrow> int \<Rightarrow> (thrown + bool) \<times> event list" where
  "shouldSend rt cfg reply now =
     (case shouldSend_try rt cfg reply now of
        (Inr b, evs) \<Rightarrow> (Inr b, evs)
      | (Inl err, evs) \<Rightarrow>
          (case shouldSend_catch rt err now of (r, evs') \<Rightarrow> (r, evs @ evs')))"

subsection \<open>The upload handshake (lines 138 to 201)\<close>

definition target_request :: "config \<Rightarrow> nat \<Rightarrow> request" where
  "target_request cfg sz =
     \<lparr> req_method = ''GET'', req_url = API_BASE_URL cfg @ ''/request-upload-url'',
       req_headers = [(''x-server-id'', serverId cfg), (''x-content-length'', string_of_nat sz)],
       req_body = None \<rparr>"

text \<open>
  \<^verbatim>\<open>getUploadUrl\<close> returns the URL or \<^verbatim>\<open>false\<close> (\<open>None\<close>). On a success status the body
  is parsed without a \<^verbatim>\<open>catch\<close> of its own, so a body that does not parse, or is
  \<^verbatim>\<open>null\<close>, throws to the \<^verbatim>\<open>catch\<close> of the function.
\<close>

definition getUploadUrl_try ::
  "runtime \<Rightarrow> config \<Rightarrow> nat \<Rightarrow> fetch_result \<Rightarrow> (thrown + string option) \<times> event list" where
  "getUploadUrl_try rt cfg sz reply =
     (let sent = [Fetch Target (target_request cfg sz)] in
      case reply of
        Threw err \<Rightarrow> (Inl err, sent)
      | Responded response \<Rightarrow>
          if resp_status response = 403 then
            (case json_catch (resp_body response) (error_only ''Forbidden'') of
               None \<Rightarrow> (Inl (ErrorObj (null_read_message rt ''reason'')), sent)
             | Some d \<Rightarrow>
                 (Inr None,
                  sent @ [Log (GetUrl403 (nullish (b_error d) ''Forbidden'') (reason_suffix d))]))
          else if resp_status response = 404 then
            (case json_catch (resp_body response) (error_only ''User not found'') of
               None \<Rightarrow> (Inl (ErrorObj (null_read_message rt ''error'')), sent)
             | Some d \<Rightarrow>
                 (Inr None, sent @ [Log (GetUrl404 (nullish (b_error d) ''User not found''))]))
          else if \<not> ok response then
            (let http = ''HTTP '' @ string_of_nat (resp_status response) in
             case json_catch (resp_body response) (error_only http) of
               None \<Rightarrow> (Inl (ErrorObj (null_read_message rt ''error'')), sent)
             | Some d \<Rightarrow> (Inr None, sent @ [Log (GetUrlOther (nullish (b_error d) http))]))
          else
            (case resp_body response of
               ParseError err \<Rightarrow> (Inl err, sent)
             | JsonNull \<Rightarrow> (Inl (ErrorObj (null_read_message rt ''url'')), sent)
             | JsonData d \<Rightarrow> (Inr (b_url d), sent)))"

definition getUploadUrl ::
  "runtime \<Rightarrow> config \<Rightarrow> nat \<Rightarrow> fetch_result \<Rightarrow> string option \<times> event list" where
  "getUploadUrl rt cfg sz reply =
     (case getUploadUrl_try rt cfg sz reply of
        (Inr u, evs) \<Rightarrow> (u, evs)
      | (Inl err, evs) \<Rightarrow> (None, evs @ [Log (GetUrlCaught (message_or err ''Unknown error''))]))"

definition transfer_request :: "string \<Rightarrow> string \<Rightarrow> request" where
  "transfer_request u payload =
     \<lparr> req_method = ''PUT'', req_url = u,
       req_headers = [(''Content-Type'', ''application/json'')], req_body = Some payload \<rparr>"

definition uploadFile :: "string \<Rightarrow> string \<Rightarrow> fetch_result \<Rightarrow> bool \<times> event list" where
  "uploadFile u payload reply =
     (let sent = [Fetch Transfer (transfer_request u payload)] in
      case reply of
        Responded response \<Rightarrow> (ok response, sent)
      | Threw err \<Rightarrow> (False, sent @ [Log (UploadCaught (message_or err ''Unknown error''))]))"

text \<open>\<^verbatim>\<open>xs[0] ?? ''\<close>\<close>

definition first_or_empty :: "string list \<Rightarrow> string" where
  "first_or_empty xs = (case xs of [] \<Rightarrow> [] | x # _ \<Rightarrow> x)"

text \<open>\<^verbatim>\<open>pathname.substring(1).split('.')[0] ?? ''\<close>\<close>

definition storage_key :: "string \<Rightarrow> string" where
  "storage_key pathname = first_or_empty (split_on CHR ''.'' (drop 1 pathname))"

text \<open>\<^verbatim>\<open>url.split('/')[2]?.split('.')[0] ?? ''\<close>\<close>

definition storage_bucket :: "string \<Rightarrow> string" where
  "storage_bucket u =
     (case at_index (split_on CHR ''/'' u) 2 of
        None \<Rightarrow> []
      | Some host \<Rightarrow> first_or_empty (split_on CHR ''.'' host))"

definition confirm_request :: "config \<Rightarrow> string \<Rightarrow> string \<Rightarrow> request" where
  "confirm_request cfg key bucket =
     \<lparr> req_method = ''GET'', req_url = API_BASE_URL cfg @ ''/finished-upload'',
       req_headers = [(''x-server-id'', serverId cfg), (''x-key'', key), (''x-bucket'', bucket)],
       req_body = None \<rparr>"

definition finishedUpload ::
  "runtime \<Rightarrow> config \<Rightarrow> string \<Rightarrow> fetch_result \<Rightarrow> bool \<times> event list" where
  "finishedUpload rt cfg u reply =
     (case url_pathname rt u of
        Inl err \<Rightarrow> (False, [Log (FinishedCaught (message_or err ''Unknown error''))])
      | Inr pathname \<Rightarrow>
          (let key = storage_key pathname;
               bucket = storage_bucket u;
               sent = [Fetch Confirm (confirm_request cfg key bucket)]
           in case reply of
                Responded response \<Rightarrow> (ok response, sent)
              | Threw err \<Rightarrow>
                  (False, sent @ [Log (FinishedCaught (message_or err ''Unknown error''))])))"

subsection \<open>The collector: \<^verbatim>\<open>runPgmetrics\<close> (lines 203 to 238)\<close>

definition base_args :: "config \<Rightarrow> string \<Rightarrow> string list" where
  "base_args cfg tmpFile =
     [''-h'', PGHOST cfg,
      ''-p'', PGPORT cfg,
      ''-U'', PGUSER cfg,
      ''-w'',
      ''--timeout'', PG_TIMEOUT cfg,
      ''--omit'', PG_OMIT cfg,
      ''--sql-length'', PG_SQL_LENGTH cfg,
      ''--statements-limit'', PG_STATEMENTS_LIMIT cfg,
      ''-f'', ''json'',
      ''-o'', tmpFile]"

text \<open>\<^verbatim>\<open>PG_DATABASES.split(',').map((d) => d.trim()).filter(Boolean)\<close>\<close>

definition database_names :: "config \<Rightarrow> string list" where
  "database_names cfg =
     filter (\<lambda>d. d \<noteq> []) (map trim (split_on CHR '','' (PG_DATABASES cfg)))"

definition pg_args :: "config \<Rightarrow> string \<Rightarrow> string list" where
  "pg_args cfg tmpFile =
     (let args = base_args cfg tmpFile in
      if ALL_DBS cfg then splice_insert args (indexOf args ''-w'' + 1) ''--all-dbs''
      else args @ database_names cfg)"

text \<open>
  The variables the script sets on top of its own environment for the subprocess; the
  password only when it is not empty.
\<close>

definition pg_env :: "config \<Rightarrow> (string \<times> string) list" where
  "pg_env cfg =
     [(''PGUSER'', PGUSER cfg), (''PGHOST'', PGHOST cfg), (''PGPORT'', PGPORT cfg)]
     @ (if PGPASSWORD cfg \<noteq> [] then [(''PGPASSWORD'', PGPASSWORD cfg)] else [])"

text \<open>
  What \<^verbatim>\<open>spawnSync\<close> returns: the exit status (\<^verbatim>\<open>null\<close> when the process did not exit by
  itself, or never started), the captured error output (\<^verbatim>\<open>null\<close> when there is none),
  the message of the launch error if there is one; and what the tool did to the file
  named after \<^verbatim>\<open>-o\<close>: the content it wrote, or \<open>None\<close> when it wrote nothing.
\<close>

record spawn_result =
  sp_status :: "int option"
  sp_stderr :: "string option"
  sp_error :: "string option"
  sp_written :: "string option"

text \<open>\<^verbatim>\<open>r.stderr?.trim() || r.error?.message || 'pgmetrics failed'\<close>\<close>

definition failure_text :: "spawn_result \<Rightarrow> string" where
  "failure_text r =
     (if truthy_str (map_option trim (sp_stderr r)) then trim (nullish (sp_stderr r) [])
      else if truthy_str (sp_error r) then nullish (sp_error r) []
      else ''pgmetrics failed'')"

definition runPgmetrics ::
  "config \<Rightarrow> string \<Rightarrow> spawn_result \<Rightarrow> files \<Rightarrow> (thrown + unit) \<times> event list \<times> files" where
  "runPgmetrics cfg tmpFile r fs =
     (let spawned = [Spawn (pg_args cfg tmpFile) (pg_env cfg)];
          fs' = (case sp_written r of None \<Rightarrow> fs | Some content \<Rightarrow> fs(tmpFile \<mapsto> content))
      in if sp_status r \<noteq> Some 0 then (Inl (ErrorObj (failure_text r)), spawned, fs')
         else (Inr (), spawned, fs'))"

subsection \<open>The send loop: \<^verbatim>\<open>loop\<close> (lines 240 to 289)\<close>

text \<open>
  What the outside world does during one iteration: the replies to the four requests,
  the two clock readings, the temporary directory, the collector's run, and what the
  file system does to a file that exists: \<open>read_fault\<close> is what \<^verbatim>\<open>readFileSync\<close> throws
  on it (no permission, a directory, too large for a string), \<open>unlink_fault\<close> what
  \<^verbatim>\<open>unlinkSync\<close> throws on it; \<open>None\<close> when the call succeeds.
\<close>

record world =
  admission_reply :: fetch_result
  admission_clock :: int
  tmp_dir :: string
  tmp_clock :: int
  spawn_reply :: spawn_result
  read_fault :: "thrown option"
  unlink_fault :: "thrown option"
  target_reply :: fetch_result
  transfer_reply :: fetch_result
  confirm_reply :: fetch_result

text \<open>
  \<^verbatim>\<open>readFileSync(f, 'utf-8')\<close>: throws on a missing file and when the file system refuses;
  otherwise the content, decoded.
\<close>

definition readFileSync :: "runtime \<Rightarrow> world \<Rightarrow> string \<Rightarrow> files \<Rightarrow> thrown + string" where
  "readFileSync rt w f fs =
     (case fs f of
        None \<Rightarrow> Inl (ErrorObj (no_file_message rt f))
      | Some content \<Rightarrow>
          (case read_fault w of
             Some err \<Rightarrow> Inl err
           | None \<Rightarrow> Inr (read_utf8 rt content)))"

text \<open>
  \<^verbatim>\<open>unlinkSync(f)\<close>: throws on a missing file and when the file system refuses, leaving
  the files as they are; otherwise the file is removed.
\<close>

definition unlinkSync :: "runtime \<Rightarrow> world \<Rightarrow> string \<Rightarrow> files \<Rightarrow> (thrown + unit) \<times> files" where
  "unlinkSync rt w f fs =
     (case fs f of
        None \<Rightarrow> (Inl (ErrorObj (no_file_message rt f)), fs)
      | Some _ \<Rightarrow>
          (case unlink_fault w of
             Some err \<Rightarrow> (Inl err, fs)
           | None \<Rightarrow> (Inr (), fs(f := None))))"

text \<open>
  \<^verbatim>\<open>join(tmpdir(), `pgmetrics_${serverId}_${Date.now()}.json`)\<close>; the normalisation
  that \<^verbatim>\<open>join\<close> applies to the path is not modelled.
\<close>

definition tmp_path :: "config \<Rightarrow> world \<Rightarrow> string" where
  "tmp_path cfg w =
     tmp_dir w @ ''/'' @ ''pgmetrics_'' @ serverId cfg @ ''_'' @ string_of_int (tmp_clock w)
       @ ''.json''"

text \<open>
  The body of the \<^verbatim>\<open>try\<close> of one iteration (lines 243 to 283). The inner \<^verbatim>\<open>catch\<close>
  (lines 257 to 262) unlinks, ignoring a failure to do so, and throws the error again.
  The read and the unlink of lines 264 and 265 are outside the inner \<^verbatim>\<open>try\<close>: when one
  of them throws, the error goes to the \<^verbatim>\<open>catch\<close> of the loop and the file stays.
\<close>

definition loop_try ::
  "runtime \<Rightarrow> config \<Rightarrow> world \<Rightarrow> files \<Rightarrow> (thrown + unit) \<times> event list \<times> files" where
  "loop_try rt cfg w fs =
     (case shouldSend rt cfg (admission_reply w) (admission_clock w) of
        (Inl err, evs) \<Rightarrow> (Inl err, evs, fs)
      | (Inr False, evs) \<Rightarrow> (Inr (), evs @ [Sleep 250], fs)
      | (Inr True, evs) \<Rightarrow>
          (let tmpFile = tmp_path cfg w;
               evs1 = evs @ [Log (BackendYes (serverId cfg))] in
           case runPgmetrics cfg tmpFile (spawn_reply w) fs of
             (Inl err, evs2, fs1) \<Rightarrow>
               (Inl err, evs1 @ evs2 @ [Unlink tmpFile], snd (unlinkSync rt w tmpFile fs1))
           | (Inr _, evs2, fs1) \<Rightarrow>
               (case readFileSync rt w tmpFile fs1 of
                  Inl err \<Rightarrow> (Inl err, evs1 @ evs2 @ [ReadFile tmpFile], fs1)
                | Inr raw \<Rightarrow>
                    (case unlinkSync rt w tmpFile fs1 of
                       (Inl err, fs2) \<Rightarrow>
                         (Inl err, evs1 @ evs2 @ [ReadFile tmpFile, Unlink tmpFile], fs2)
                     | (Inr _, fs2) \<Rightarrow>
                         (let sz = length raw;
                              evs3 = evs1 @ evs2
                                @ [ReadFile tmpFile, Unlink tmpFile, Log (SizeMB sz)]
                          in case getUploadUrl rt cfg sz (target_reply w) of
                               (None, evs4) \<Rightarrow> (Inr (), evs3 @ evs4 @ [Sleep 1000], fs2)
                             | (Some u, evs4) \<Rightarrow>
                                 if u = [] then (Inr (), evs3 @ evs4 @ [Sleep 1000], fs2)
                                 else
                                   (case uploadFile u raw (transfer_reply w) of
                                      (uploaded, evs5) \<Rightarrow>
                                        (case finishedUpload rt cfg u (confirm_reply w) of
                                           (finished, evs6) \<Rightarrow>
                                             (Inr (),
                                              evs3 @ evs4 @ [Log (UrlLine u)] @ evs5
                                                @ [Log (Uploaded uploaded)] @ evs6
                                                @ [Log (Finished finished), Sleep 1000],
                                              fs2))))))))"

text \<open>One iteration, with the \<^verbatim>\<open>catch\<close> of lines 284 to 287.\<close>

definition loop_iteration ::
  "runtime \<Rightarrow> config \<Rightarrow> world \<Rightarrow> files \<Rightarrow> event list \<times> files" where
  "loop_iteration rt cfg w fs =
     (case loop_try rt cfg w fs of
        (Inr _, evs, fs') \<Rightarrow> (evs, fs')
      | (Inl err, evs, fs') \<Rightarrow> (evs @ [Log (LoopError err), Sleep 1000], fs'))"

text \<open>
  \<^verbatim>\<open>while (true)\<close>: the loop has no exit. \<open>loop rt cfg ws fs\<close> is its run through the
  iterations whose worlds are \<open>ws\<close>, one after the other.
\<close>

fun loop :: "runtime \<Rightarrow> config \<Rightarrow> world list \<Rightarrow> files \<Rightarrow> event list \<times> files" where
  "loop rt cfg [] fs = ([], fs)"
| "loop rt cfg (w # ws) fs =
     (case loop_iteration rt cfg w fs of
        (evs, fs') \<Rightarrow> (case loop rt cfg ws fs' of (evs', fs'') \<Rightarrow> (evs @ evs', fs'')))"

subsection \<open>Reading a list of effects\<close>

text \<open>The durations of the sleeps, in order; their sum; and whether no admission request occurs.\<close>

fun waits :: "event list \<Rightarrow> int list" where
  "waits [] = []"
| "waits (Sleep w # evs) = w # waits evs"
| "waits (_ # evs) = waits evs"

definition sleep_total :: "event list \<Rightarrow> int" where
  "sleep_total evs = sum_list (waits evs)"

fun no_admission :: "event list \<Rightarrow> bool" where
  "no_admission [] = True"
| "no_admission (Fetch Admission _ # evs) = False"
| "no_admission (_ # evs) = no_admission evs"

text \<open>
  \<open>spaced acc evs\<close>: every admission request in \<open>evs\<close> but the first comes after sleeps
  of at least 250 ms in total since the admission request before it. \<open>acc\<close> is the time
  slept since the last admission request, \<open>None\<close> when there has been none yet.
\<close>

fun spaced :: "int option \<Rightarrow> event list \<Rightarrow> bool" where
  "spaced acc [] = True"
| "spaced acc (Sleep w # evs) = spaced (map_option (\<lambda>a. a + w) acc) evs"
| "spaced acc (Fetch Admission _ # evs) =
     ((case acc of None \<Rightarrow> True | Some a \<Rightarrow> 250 \<le> a) \<and> spaced (Some 0) evs)"
| "spaced acc (_ # evs) = spaced acc evs"

subsection \<open>The wording of the specification, for comparison\<close>

text \<open>
  The storage key as the specification words it: of the URL path, the first segment, and
  of that the prefix before the first dot.
\<close>

definition spec_storage_key :: "string \<Rightarrow> string" where
  "spec_storage_key pathname =
     takeWhile (\<lambda>c. c \<noteq> CHR ''.'') (first_or_empty (split_on CHR ''/'' (drop 1 pathname)))"

text \<open>
  The database names as the specification words them: the names of the configured list,
  trimmed, the empty ones left out.
\<close>

definition spec_database_names :: "string \<Rightarrow> string list" where
  "spec_database_names setting = filter (\<lambda>d. d \<noteq> []) (map trim (split_on CHR '','' setting))"

text \<open>
  The diagnostic text as the specification words it: the captured error output when it
  is not empty, else the message of the launch failure, else a generic message.
\<close>

definition spec_failure_text :: "spawn_result \<Rightarrow> string" where
  "spec_failure_text r =
     (case sp_stderr r of
        Some s \<Rightarrow>
          if s \<noteq> [] then s
          else (case sp_error r of
                  Some m \<Rightarrow> if m \<noteq> [] then m else ''pgmetrics failed''
                | None \<Rightarrow> ''pgmetrics failed'')
      | None \<Rightarrow>
          (case sp_error r of
             Some m \<Rightarrow> if m \<noteq> [] then m else ''pgmetrics failed''
           | None \<Rightarrow> ''pgmetrics failed''))"

subsection \<open>Concrete inputs for the examples\<close>

text \<open>
  A runtime for the examples. Its \<^verbatim>\<open>pathname\<close> covers the URLs of the form
  \<^verbatim>\<open>scheme://authority/path?query#fragment\<close> whose path the URL parser leaves as it is;
  its \<^verbatim>\<open>JSON.parse\<close> is used on messages that are no JSON only; its lower case covers
  the letters of ASCII and of Latin-1 (U+00C0 to U+00DE without U+00D7, two bytes each,
  the second of which grows by 32). Its decoder is the UTF-8 decoder of the runtime: a
  well-formed sequence is kept, and every maximal ill-formed run of bytes becomes U+FFFD
  (the bytes \<open>EF BF BD\<close>).
\<close>

definition replacement :: string where
  "replacement = [CHR 0xEF, CHR 0xBF, CHR 0xBD]"

definition between :: "nat \<Rightarrow> nat \<Rightarrow> char \<Rightarrow> bool" where
  "between lo hi c = (lo \<le> of_char c \<and> (of_char c :: nat) \<le> hi)"

fun latin1_lower :: "string \<Rightarrow> string" where
  "latin1_lower [] = []"
| "latin1_lower [b] = [lower_char b]"
| "latin1_lower (b # c # s) =
     (if b = CHR 0xC3 \<and> between 0x80 0x9E c \<and> c \<noteq> CHR 0x97
      then b # char_of (of_char c + (32 :: nat)) # latin1_lower s
      else lower_char b # latin1_lower (c # s))"

fun utf8_lossy :: "string \<Rightarrow> string" where
  "utf8_lossy [] = []"
| "utf8_lossy (b # bs) =
     (let n = (of_char b :: nat) in
      if n < 0x80 then b # utf8_lossy bs
      else if 0xC2 \<le> n \<and> n \<le> 0xDF then
        (case bs of
           [] \<Rightarrow> replacement
         | c # r \<Rightarrow>
             if between 0x80 0xBF c then b # c # utf8_lossy r
             else replacement @ utf8_lossy bs)
      else if 0xE0 \<le> n \<and> n \<le> 0xEF then
        (case bs of
           [] \<Rightarrow> replacement
         | c # r \<Rightarrow>
             if between (if n = 0xE0 then 0xA0 else 0x80) (if n = 0xED then 0x9F else 0xBF) c then
               (case r of
                  [] \<Rightarrow> replacement
                | d # r' \<Rightarrow>
                    if between 0x80 0xBF d then b # c # d # utf8_lossy r'
                    else replacement @ utf8_lossy r)
             else replacement @ utf8_lossy bs)
      else if 0xF0 \<le> n \<and> n \<le> 0xF4 then
        (case bs of
           [] \<Rightarrow> replacement
         | c # r \<Rightarrow>
             if between (if n = 0xF0 then 0x90 else 0x80) (if n = 0xF4 then 0x8F else 0xBF) c then
               (case r of
                  [] \<Rightarrow> replacement
                | d # r' \<Rightarrow>
                    if between 0x80 0xBF d then
                      (case r' of
                         [] \<Rightarrow> replacement
                       | e # r'' \<Rightarrow>
                           if between 0x80 0xBF e then b # c # d # e # utf8_lossy r''
                           else replacement @ utf8_lossy r')
                    else replacement @ utf8_lossy r)
             else replacement @ utf8_lossy bs)
      else replacement @ utf8_lossy bs)"

definition plain_pathname :: "string \<Rightarrow> thrown + string" where
  "plain_pathname u =
     (let scheme = takeWhile (\<lambda>c. c \<noteq> CHR '':'') u;
          rest = drop (length scheme) u;
          after = drop 3 rest;
          authority = takeWhile (\<lambda>c. c \<notin> set ''/?#'') after;
          p = takeWhile (\<lambda>c. c \<notin> set ''?#'') (drop (length authority) after)
      in if scheme = [] \<or> take 3 rest \<noteq> ''://'' \<or> authority = []
         then Inl (ErrorObj ''Invalid URL'')
         else Inr (if p = [] then ''/'' else p))"

definition sample_runtime :: runtime where
  "sample_runtime =
     \<lparr> json_parse = (\<lambda>s. ParseError (ErrorObj ''Unexpected token'')),
       url_pathname = plain_pathname,
       null_read_message = (\<lambda>p. ''Cannot read properties of null (reading '' @ p @ '')''),
       no_file_message = (\<lambda>f. ''ENOENT: no such file or directory, open '' @ f),
       read_utf8 = utf8_lossy,
       unicode_lower = latin1_lower \<rparr>"

text \<open>
  Environments: one with the identity only, one with a remote host and no password
  setting, and four with a database setting: a list with blanks, \<open>ALL\<close> after a no-break
  space (U+00A0), a list with an entry that is a no-break space, and a list in mixed
  case.
\<close>

definition sample_env :: "string \<rightharpoonup> string" where
  "sample_env = [''SERVER_ID'' \<mapsto> ''srv1'']"

definition sample_argv :: "string list" where
  "sample_argv = [''bun'', ''sendPgmetrics.ts'']"

definition sample_config :: config where
  "sample_config = load_config sample_runtime sample_env sample_argv"

definition remote_env :: "string \<rightharpoonup> string" where
  "remote_env = [''SERVER_ID'' \<mapsto> ''srv1'', ''PG_HOST'' \<mapsto> ''db.example.com'']"

text \<open>Replies of the service, and upload URLs.\<close>

definition forbidden_reply :: fetch_result where
  "forbidden_reply =
     Responded \<lparr> resp_status = 403, resp_body = ParseError (ErrorObj ''Unexpected token'') \<rparr>"

definition network_failure :: fetch_result where
  "network_failure = Threw (ErrorObj ''fetch failed'')"

definition rate_limited :: "int option \<Rightarrow> fetch_result" where
  "rate_limited t =
     Responded \<lparr> resp_status = 429,
                 resp_body = JsonData (no_fields \<lparr> b_nextCollectionAt := t \<rparr>) \<rparr>"

definition example_url :: string where
  "example_url = ''https://bucket1.storage.example/abc123.json?sig=x''"

definition nested_url :: string where
  "nested_url = ''https://bucket1.storage.example/metrics/abc123.json?sig=x''"

definition ok_reply :: fetch_result where
  "ok_reply = Responded \<lparr> resp_status = 200, resp_body = JsonData no_fields \<rparr>"

definition listed_env :: "string \<rightharpoonup> string" where
  "listed_env = [''SERVER_ID'' \<mapsto> ''srv1'', ''PG_DATABASES'' \<mapsto> '' Db1, ,db2 '']"

definition nbsp_all_env :: "string \<rightharpoonup> string" where
  "nbsp_all_env = [''SERVER_ID'' \<mapsto> ''srv1'', ''PG_DATABASES'' \<mapsto> [CHR 0xC2, CHR 0xA0] @ ''ALL'']"

definition nbsp_entry_env :: "string \<rightharpoonup> string" where
  "nbsp_entry_env =
     [''SERVER_ID'' \<mapsto> ''srv1'',
      ''PG_DATABASES'' \<mapsto> ''db1,'' @ [CHR 0xC2, CHR 0xA0] @ '',db2'']"

definition mixed_case_env :: "string \<rightharpoonup> string" where
  "mixed_case_env = [''SERVER_ID'' \<mapsto> ''srv1'', ''PG_DATABASES'' \<mapsto> ''MyDB,Sales'']"

text \<open>
  Runs of the collector: one that writes a snapshot of two bytes, one that exits with
  status 1 and \<open>connection refused\<close> on its error output, one that exits with status 1
  and a single space on its error output, one that writes the single byte \<open>FF\<close>, one
  that cannot be launched. Worlds: in \<open>sample_world\<close> everything succeeds but the
  transfer, which is answered with status 500.
\<close>

definition collected :: spawn_result where
  "collected =
     \<lparr> sp_status = Some 0, sp_stderr = Some [], sp_error = None, sp_written = Some ''{}'' \<rparr>"

definition refused :: spawn_result where
  "refused = \<lparr> sp_status = Some 1, sp_stderr = Some (''connection refused'' @ [CHR 0x0A]),
                sp_error = None, sp_written = None \<rparr>"

definition sample_world :: world where
  "sample_world =
     \<lparr> admission_reply = ok_reply,
       admission_clock = 1700000000000,
       tmp_dir = ''/tmp'',
       tmp_clock = 1700000000123,
       spawn_reply = collected,
       read_fault = None,
       unlink_fault = None,
       target_reply = Responded \<lparr> resp_status = 200,
                         resp_body = JsonData (no_fields \<lparr> b_url := Some example_url \<rparr>) \<rparr>,
       transfer_reply = Responded \<lparr> resp_status = 500,
                           resp_body = ParseError (ErrorObj ''Unexpected token'') \<rparr>,
       confirm_reply = ok_reply \<rparr>"

definition refused_world :: world where
  "refused_world = sample_world \<lparr> spawn_reply := refused \<rparr>"

definition denied_world :: world where
  "denied_world = sample_world \<lparr> admission_reply := forbidden_reply \<rparr>"

definition sample_tmp :: string where
  "sample_tmp = ''/tmp/pgmetrics_srv1_1700000000123.json''"

definition blank_output :: spawn_result where
  "blank_output = \<lparr> sp_status = Some 1, sp_stderr = Some '' '', sp_error = None,
                     sp_written = None \<rparr>"

definition ill_formed :: spawn_result where
  "ill_formed = \<lparr> sp_status = Some 0, sp_stderr = Some [], sp_error = None,
                   sp_written = Some [CHR 0xFF] \<rparr>"

definition ill_formed_world :: world where
  "ill_formed_world = sample_world \<lparr> spawn_reply := ill_formed \<rparr>"

definition unreadable_world :: world where
  "unreadable_world = sample_world \<lparr> read_fault := Some (ErrorObj ''EACCES: permission denied'') \<rparr>"

definition not_launched :: spawn_result where
  "not_launched = \<lparr> sp_status = None, sp_stderr = None,
                     sp_error = Some ''spawnSync pgmetrics ENOENT'', sp_written = None \<rparr>"

section \<open>Properties\<close>

subsection \<open>Configuration\<close>

lemma trim_all: "trim ''all'' = ''all''"
  by code_simp

lemma lower_trim_all: "toLowerCase rt (trim ''all'') = ''all''"
  by (simp add: trim_all toLowerCase_def ascii_def lower_char_def)

text \<open>
  C9 (as amended). When a setting is absent from the environment, the configuration takes
  its default: database selection \<open>all\<close> (the all-databases policy), timeout \<open>60\<close>,
  omitted sections \<open>log\<close>, maximal SQL length \<open>10000\<close>, statement limit \<open>10000\<close>, port
  \<open>5432\<close>, host the local socket directory \<open>/var/run/postgresql\<close>.
\<close>

theorem defaults_when_absent:
  "(env ''PG_DATABASES'' = None \<longrightarrow>
      PG_DATABASES (load_config rt env argv) = ''all'' \<and> ALL_DBS (load_config rt env argv))
   \<and> (env ''PG_TIMEOUT'' = None \<longrightarrow> PG_TIMEOUT (load_config rt env argv) = ''60'')
   \<and> (env ''PG_OMIT'' = None \<longrightarrow> PG_OMIT (load_config rt env argv) = ''log'')
   \<and> (env ''PG_SQL_LENGTH'' = None \<longrightarrow> PG_SQL_LENGTH (load_config rt env argv) = ''10000'')
   \<and> (env ''PG_STATEMENTS_LIMIT'' = None \<longrightarrow>
        PG_STATEMENTS_LIMIT (load_config rt env argv) = ''10000'')
   \<and> (env ''PG_PORT'' = None \<longrightarrow> PGPORT (load_config rt env argv) = ''5432'')
   \<and> (env ''PG_HOST'' = None \<longrightarrow> PGHOST (load_config rt env argv) = ''/var/run/postgresql'')"
  by (simp add: load_config_def Let_def nullish_def lower_trim_all)

theorem defaults_when_absent_witness:
  "PG_DATABASES (load_config sample_runtime sample_env sample_argv) = ''all''
   \<and> ALL_DBS (load_config sample_runtime sample_env sample_argv)
   \<and> PG_TIMEOUT (load_config sample_runtime sample_env sample_argv) = ''60''
   \<and> PG_OMIT (load_config sample_runtime sample_env sample_argv) = ''log''
   \<and> PG_SQL_LENGTH (load_config sample_runtime sample_env sample_argv) = ''10000''
   \<and> PG_STATEMENTS_LIMIT (load_config sample_runtime sample_env sample_argv) = ''10000''
   \<and> PGPORT (load_config sample_runtime sample_env sample_argv) = ''5432''
   \<and> PGHOST (load_config sample_runtime sample_env sample_argv) = ''/var/run/postgresql''"
  using defaults_when_absent [where env = sample_env and rt = sample_runtime and argv = sample_argv]
  by (simp add: sample_env_def)

text \<open>
  C9 as stated fails: with \<^verbatim>\<open>PG_OMIT\<close> absent the omitted-sections setting is \<open>log\<close>, not
  \<open>logs\<close>.
\<close>

theorem omit_default_counterexample:
  "PG_OMIT (load_config sample_runtime sample_env sample_argv) \<noteq> ''logs''"
  by (simp add: load_config_def Let_def nullish_def sample_env_def)

text \<open>
  What the two checks do: without test mode and without an identity the process exits
  with status 1; with a password set to the empty string and a host other than the local
  socket directory it exits with status 1; with no password setting at all the second
  check never fires.
\<close>

lemma missing_identity_exits:
  assumes "env ''TEST_MODE'' = None" and "''--test'' \<notin> set argv"
    and "env ''SERVER_ID'' = None" and "length argv \<le> 2"
  shows "startup rt env argv = Exited 1 MissingServerId"
  using assms
  by (simp add: startup_def load_config_def Let_def truthy_str_def at_index_def)

lemma empty_password_exits:
  assumes "env ''SERVER_ID'' = Some sid" and "sid \<noteq> []"
    and "env ''PG_PASSWORD'' = Some []" and "env ''PG_HOST'' = Some h"
    and "h \<noteq> ''/var/run/postgresql''"
  shows "startup rt env argv = Exited 1 MissingPassword"
  using assms
  by (simp add: startup_def load_config_def Let_def truthy_str_def nullish_def)

lemma unset_password_never_fatal:
  assumes "env ''PG_PASSWORD'' = None"
  shows "startup rt env argv \<noteq> Exited 1 MissingPassword"
  using assms
  by (simp add: startup_def load_config_def Let_def nullish_def)

text \<open>
  C8. The claim has a missing password with a non-local host end the process. In the code
  an absent \<^verbatim>\<open>PG_PASSWORD\<close> becomes the password \<open>postgres\<close> before the check of line 37
  reads it, so with an identity, a remote host and no password setting the script goes on
  into the send loop.
\<close>

theorem unset_password_remote_host:
  "startup rt remote_env sample_argv = SendLoop (load_config rt remote_env sample_argv)
   \<and> PGPASSWORD (load_config rt remote_env sample_argv) = ''postgres''
   \<and> PGHOST (load_config rt remote_env sample_argv) = ''db.example.com''"
  by (simp add: startup_def load_config_def Let_def nullish_def truthy_str_def remote_env_def
      sample_argv_def)

subsection \<open>The admission check\<close>

lemma waits_append [simp]: "waits (xs @ ys) = waits xs @ waits ys"
  by (induction xs rule: waits.induct) simp_all

lemma rate_limit_wait_nonneg: "0 \<le> rate_limit_wait d now"
  by (simp add: rate_limit_wait_def)

lemma shouldSend_result:
  "fst (shouldSend rt cfg reply now) = Inr (case reply of Threw _ \<Rightarrow> False | Responded r \<Rightarrow> ok r)"
  by (auto simp: shouldSend_def shouldSend_try_def shouldSend_catch_def Let_def ok_def
      split: fetch_result.splits option.splits prod.splits json_result.splits)

lemma shouldSend_catch_shape:
  "\<exists>evs w. shouldSend_catch rt err now = (Inr False, evs @ [Sleep w])
     \<and> 0 \<le> w \<and> waits evs = [] \<and> no_admission evs"
  by (simp add: shouldSend_catch_def Let_def split: json_result.splits)

lemma shouldSend_try_shape:
  "(\<exists>err. shouldSend_try rt cfg reply now = (Inl err, [Fetch Admission (admission_request cfg)]))
   \<or> shouldSend_try rt cfg reply now = (Inr True, [Fetch Admission (admission_request cfg)])
   \<or> (\<exists>evs w. shouldSend_try rt cfg reply now
          = (Inr False, Fetch Admission (admission_request cfg) # evs @ [Sleep w])
        \<and> 0 \<le> w \<and> waits evs = [] \<and> no_admission evs)"
  by (auto simp: shouldSend_try_def Let_def rate_limit_wait_nonneg
      split: fetch_result.splits option.splits)

text \<open>
  Whatever the reply, \<open>shouldSend\<close> either returns \<open>true\<close> having only sent its request,
  or returns \<open>false\<close> having slept once, at the end.
\<close>

lemma shouldSend_shape:
  "shouldSend rt cfg reply now = (Inr True, [Fetch Admission (admission_request cfg)])
   \<or> (\<exists>evs w. shouldSend rt cfg reply now
          = (Inr False, Fetch Admission (admission_request cfg) # evs @ [Sleep w])
        \<and> 0 \<le> w \<and> waits evs = [] \<and> no_admission evs)"
proof -
  consider (thrown) err where
      "shouldSend_try rt cfg reply now = (Inl err, [Fetch Admission (admission_request cfg)])"
    | (yes) "shouldSend_try rt cfg reply now = (Inr True, [Fetch Admission (admission_request cfg)])"
    | (no) evs w where
      "shouldSend_try rt cfg reply now
         = (Inr False, Fetch Admission (admission_request cfg) # evs @ [Sleep w])"
      "0 \<le> w" "waits evs = []" "no_admission evs"
    using shouldSend_try_shape [of rt cfg reply now] by blast
  then show ?thesis
  proof cases
    case thrown
    obtain evs w where "shouldSend_catch rt err now = (Inr False, evs @ [Sleep w])"
      "0 \<le> w" "waits evs = []" "no_admission evs"
      using shouldSend_catch_shape [of rt err now] by blast
    with thrown show ?thesis
      by (simp add: shouldSend_def)
  next
    case yes
    then show ?thesis by (simp add: shouldSend_def)
  next
    case no
    then show ?thesis by (simp add: shouldSend_def)
  qed
qed

lemma shouldSend_fixed_waits:
  assumes "reply = Responded r" and "\<not> ok r" and "resp_body r \<noteq> JsonNull"
    and "resp_status r \<noteq> 429"
  shows "waits (snd (shouldSend rt cfg reply now))
           = [if resp_status r = 403 \<or> resp_status r = 404 then 30000 else 2500]"
  using assms
  by (cases "resp_body r")
     (simp_all add: shouldSend_def shouldSend_try_def json_catch_def Let_def)

text \<open>
  C1. \<open>shouldSend\<close> never throws: its result is a value, \<open>true\<close> exactly for a success
  response. For every other reply (a status that is no success, whatever the body, or a
  rejected \<^verbatim>\<open>fetch\<close>) it returns \<open>false\<close>, and its effects end with its one sleep. The
  sleep is 30 s for a 403 or 404 and 2.5 s for another status that is no success and not
  429 (when the body is not the JSON value \<^verbatim>\<open>null\<close>, on which reading a property throws
  into the \<^verbatim>\<open>catch\<close>).
\<close>

theorem shouldSend_denies:
  "fst (shouldSend rt cfg reply now)
     = Inr (case reply of Threw _ \<Rightarrow> False | Responded r \<Rightarrow> ok r)
   \<and> ((\<forall>r. reply = Responded r \<longrightarrow> \<not> ok r) \<longrightarrow>
        (\<exists>evs w. snd (shouldSend rt cfg reply now) = evs @ [Sleep w] \<and> 0 \<le> w \<and> waits evs = []))
   \<and> (\<forall>r. reply = Responded r \<and> \<not> ok r \<and> resp_body r \<noteq> JsonNull \<and> resp_status r \<noteq> 429 \<longrightarrow>
        waits (snd (shouldSend rt cfg reply now))
          = [if resp_status r = 403 \<or> resp_status r = 404 then 30000 else 2500])"
proof (intro conjI allI impI)
  show res: "fst (shouldSend rt cfg reply now)
     = Inr (case reply of Threw _ \<Rightarrow> False | Responded r \<Rightarrow> ok r)"
    by (rule shouldSend_result)
  assume "\<forall>r. reply = Responded r \<longrightarrow> \<not> ok r"
  then have "fst (shouldSend rt cfg reply now) \<noteq> Inr True"
    using res by (cases reply) simp_all
  then obtain evs w where
    "shouldSend rt cfg reply now
       = (Inr False, Fetch Admission (admission_request cfg) # evs @ [Sleep w])"
    "0 \<le> w" "waits evs = []"
    using shouldSend_shape [of rt cfg reply now] by auto
  then have "snd (shouldSend rt cfg reply now)
       = (Fetch Admission (admission_request cfg) # evs) @ [Sleep w]
     \<and> 0 \<le> w \<and> waits (Fetch Admission (admission_request cfg) # evs) = []"
    by simp
  then show "\<exists>evs w. snd (shouldSend rt cfg reply now) = evs @ [Sleep w] \<and> 0 \<le> w \<and> waits evs = []"
    by blast
next
  fix r
  assume "reply = Responded r \<and> \<not> ok r \<and> resp_body r \<noteq> JsonNull \<and> resp_status r \<noteq> 429"
  then show "waits (snd (shouldSend rt cfg reply now))
          = [if resp_status r = 403 \<or> resp_status r = 404 then 30000 else 2500]"
    using shouldSend_fixed_waits by blast
qed

theorem shouldSend_denies_witness:
  "fst (shouldSend sample_runtime sample_config forbidden_reply 1700000000000) = Inr False
   \<and> waits (snd (shouldSend sample_runtime sample_config forbidden_reply 1700000000000)) = [30000]
   \<and> fst (shouldSend sample_runtime sample_config network_failure 1700000000000) = Inr False
   \<and> snd (shouldSend sample_runtime sample_config network_failure 1700000000000)
       = [Fetch Admission (admission_request sample_config), Log (PrecheckCaught ''fetch failed'')]
         @ [Sleep 2500]"
  using shouldSend_denies [of sample_runtime sample_config forbidden_reply 1700000000000]
    shouldSend_denies [of sample_runtime sample_config network_failure 1700000000000]
  by (simp add: forbidden_reply_def network_failure_def ok_def shouldSend_def shouldSend_try_def
      shouldSend_catch_def sample_runtime_def message_or_def)

lemma shouldSend_429_data:
  assumes "resp_status r = 429" and "resp_body r = JsonData d"
  shows "shouldSend rt cfg (Responded r) now =
           (Inr False, [Fetch Admission (admission_request cfg),
                        Log (PrecheckRateLimit (ceil_seconds (rate_limit_wait d now))),
                        Sleep (rate_limit_wait d now)])"
  using assms by (simp add: shouldSend_def shouldSend_try_def json_catch_def Let_def)

lemma shouldSend_429_unparsed:
  assumes "resp_status r = 429" and "resp_body r = ParseError e"
  shows "shouldSend rt cfg (Responded r) now =
           (Inr False, [Fetch Admission (admission_request cfg),
                        Log (PrecheckRateLimit 3), Sleep 2500])"
  using assms
  by (simp add: shouldSend_def shouldSend_try_def json_catch_def Let_def rate_limit_wait_def
      no_fields_def truthy_num_def ceil_seconds_def)

lemma shouldSend_429_null:
  assumes "resp_status r = 429" and "resp_body r = JsonNull"
    and "\<forall>d. json_parse rt (null_read_message rt ''nextCollectionAt'') \<noteq> JsonData d"
  shows "waits (snd (shouldSend rt cfg (Responded r) now)) = [2500]"
  using assms
  by (cases "json_parse rt (null_read_message rt ''nextCollectionAt'')")
     (simp_all add: shouldSend_def shouldSend_try_def shouldSend_catch_def json_catch_def
        message_or_def Let_def)

text \<open>
  C3 (as amended). On a 429 whose body carries a \<^verbatim>\<open>nextCollectionAt\<close> other than 0, the
  wait is \<^verbatim>\<open>nextCollectionAt\<close> minus the current time, floored at zero: 0 for a time that
  is not in the future, 5000 ms for \<open>now + 5000\<close>. When the field is absent or 0, or the
  body does not parse, the wait is the default of 2500 ms; so it is when the body is
  \<^verbatim>\<open>null\<close>, the message of the \<^verbatim>\<open>TypeError\<close> being no JSON object.
\<close>

theorem rate_limit_wait_429:
  assumes "resp_status r = 429"
  shows "(\<forall>d t. resp_body r = JsonData d \<and> b_nextCollectionAt d = Some t \<and> t \<noteq> 0 \<longrightarrow>
            waits (snd (shouldSend rt cfg (Responded r) now)) = [max 0 (t - now)]
            \<and> (t \<le> now \<longrightarrow> waits (snd (shouldSend rt cfg (Responded r) now)) = [0])
            \<and> (t = now + 5000 \<longrightarrow> waits (snd (shouldSend rt cfg (Responded r) now)) = [5000]))
       \<and> (\<forall>d. resp_body r = JsonData d
               \<and> (b_nextCollectionAt d = None \<or> b_nextCollectionAt d = Some 0) \<longrightarrow>
            waits (snd (shouldSend rt cfg (Responded r) now)) = [2500])
       \<and> (\<forall>e. resp_body r = ParseError e \<longrightarrow>
            waits (snd (shouldSend rt cfg (Responded r) now)) = [2500])
       \<and> (resp_body r = JsonNull
            \<and> (\<forall>d. json_parse rt (null_read_message rt ''nextCollectionAt'') \<noteq> JsonData d) \<longrightarrow>
            waits (snd (shouldSend rt cfg (Responded r) now)) = [2500])"
  using assms
  by (auto simp: shouldSend_429_data shouldSend_429_unparsed shouldSend_429_null
      rate_limit_wait_def truthy_num_def nullish_def)

theorem rate_limit_wait_429_witness:
  "waits (snd (shouldSend sample_runtime sample_config (rate_limited (Some 1700000005000))
                 1700000000000)) = [5000]
   \<and> waits (snd (shouldSend sample_runtime sample_config (rate_limited (Some 1600000000000))
                 1700000000000)) = [0]
   \<and> waits (snd (shouldSend sample_runtime sample_config (rate_limited None)
                 1700000000000)) = [2500]"
  using rate_limit_wait_429 [of "\<lparr> resp_status = 429,
            resp_body = JsonData (no_fields \<lparr> b_nextCollectionAt := Some 1700000005000 \<rparr>) \<rparr>"
          sample_runtime sample_config 1700000000000]
    rate_limit_wait_429 [of "\<lparr> resp_status = 429,
            resp_body = JsonData (no_fields \<lparr> b_nextCollectionAt := Some 1600000000000 \<rparr>) \<rparr>"
          sample_runtime sample_config 1700000000000]
    rate_limit_wait_429 [of "\<lparr> resp_status = 429,
            resp_body = JsonData (no_fields \<lparr> b_nextCollectionAt := None \<rparr>) \<rparr>"
          sample_runtime sample_config 1700000000000]
  by (simp add: rate_limited_def)

text \<open>
  C3 as stated fails: a body that carries \<^verbatim>\<open>nextCollectionAt = 0\<close>, a time in the past,
  gives a wait of 2500 ms, not 0, since line 107 tests the field for truthiness.
\<close>

theorem zero_timestamp_counterexample:
  "waits (snd (shouldSend sample_runtime sample_config (rate_limited (Some 0)) 1700000000000))
     = [2500]
   \<and> max 0 (0 - 1700000000000) \<noteq> (2500 :: int)"
  by (simp add: rate_limited_def shouldSend_429_data rate_limit_wait_def truthy_num_def)

subsection \<open>The confirmation step\<close>

lemma split_on_nonempty: "split_on c s \<noteq> []"
  by (induction s) (auto split: list.splits)

lemma first_split_on: "first_or_empty (split_on c s) = takeWhile (\<lambda>x. x \<noteq> c) s"
  by (induction s) (auto simp: first_or_empty_def split: list.splits)

lemma storage_key_prefix: "storage_key p = takeWhile (\<lambda>x. x \<noteq> CHR ''.'') (drop 1 p)"
  by (simp add: storage_key_def first_split_on)

lemma takeWhile_twice:
  "c \<notin> set (takeWhile P s) \<Longrightarrow> takeWhile P (takeWhile (\<lambda>x. x \<noteq> c) s) = takeWhile P s"
  by (induction s) auto

lemma example_pathname: "plain_pathname example_url = Inr ''/abc123.json''"
  unfolding example_url_def by code_simp

lemma example_pieces:
  "at_index (split_on CHR ''/'' example_url) 2 = Some ''bucket1.storage.example''"
  unfolding example_url_def by code_simp

lemma nested_pathname: "plain_pathname nested_url = Inr ''/metrics/abc123.json''"
  unfolding nested_url_def by code_simp

lemma nested_pieces:
  "at_index (split_on CHR ''/'' nested_url) 2 = Some ''bucket1.storage.example''"
  unfolding nested_url_def by code_simp

lemma nested_spec_key: "spec_storage_key ''/metrics/abc123.json'' = ''metrics''"
  by code_simp

text \<open>
  C5 (as amended). For a target URL that parses, \<open>finishedUpload\<close> makes one request, the
  confirmation, and no other. Its key is the URL path without the leading slash, up to
  the first dot; its bucket is the third piece of the URL string split at slashes (the
  host, for \<^verbatim>\<open>scheme://host/path\<close>), up to the first dot. The key is the prefix of the
  first path segment whenever no slash comes before the first dot of the path. For
  \<^verbatim>\<open>https://bucket1.storage.example/abc123.json?sig=x\<close> (see the witness) the bucket is
  \<open>bucket1\<close> and the key \<open>abc123\<close>.
\<close>

theorem finishedUpload_derivation:
  assumes "url_pathname rt u = Inr p"
  shows "snd (finishedUpload rt cfg u reply)
           = Fetch Confirm (confirm_request cfg
                (takeWhile (\<lambda>c. c \<noteq> CHR ''.'') (drop 1 p))
                (case at_index (split_on CHR ''/'' u) 2 of
                   None \<Rightarrow> []
                 | Some host \<Rightarrow> takeWhile (\<lambda>c. c \<noteq> CHR ''.'') host))
             # (case reply of
                  Responded _ \<Rightarrow> []
                | Threw err \<Rightarrow> [Log (FinishedCaught (message_or err ''Unknown error''))])
       \<and> (CHR ''/'' \<notin> set (takeWhile (\<lambda>c. c \<noteq> CHR ''.'') (drop 1 p)) \<longrightarrow>
           takeWhile (\<lambda>c. c \<noteq> CHR ''.'') (drop 1 p) = spec_storage_key p)"
  using assms
  by (simp add: finishedUpload_def Let_def storage_key_prefix storage_bucket_def first_split_on
      spec_storage_key_def takeWhile_twice split: fetch_result.splits option.splits)

theorem finishedUpload_derivation_witness:
  "snd (finishedUpload sample_runtime sample_config example_url ok_reply)
     = [Fetch Confirm (confirm_request sample_config ''abc123'' ''bucket1'')]
   \<and> req_headers (confirm_request sample_config ''abc123'' ''bucket1'')
     = [(''x-server-id'', ''srv1''), (''x-key'', ''abc123''), (''x-bucket'', ''bucket1'')]"
  using finishedUpload_derivation
    [of sample_runtime example_url "''/abc123.json''" sample_config ok_reply]
  by (simp add: sample_runtime_def example_pathname example_pieces ok_reply_def confirm_request_def
      sample_config_def load_config_def sample_env_def nullish_def Let_def)

text \<open>
  C5 as stated fails: for \<^verbatim>\<open>https://bucket1.storage.example/metrics/abc123.json?sig=x\<close>
  the key sent is \<open>metrics/abc123\<close>, while the prefix before the first dot of the first
  path segment is \<open>metrics\<close>.
\<close>

theorem nested_path_counterexample:
  "snd (finishedUpload sample_runtime sample_config nested_url ok_reply)
     = [Fetch Confirm (confirm_request sample_config ''metrics/abc123'' ''bucket1'')]
   \<and> spec_storage_key ''/metrics/abc123.json'' = ''metrics''"
  by (simp add: finishedUpload_def sample_runtime_def nested_pathname storage_key_prefix
      storage_bucket_def nested_pieces first_split_on nested_spec_key ok_reply_def
      first_or_empty_def)

subsection \<open>The collector's arguments\<close>

lemma indexOf_bounds:
  "x \<in> set xs \<Longrightarrow>
     0 \<le> indexOf xs x \<and> indexOf xs x < int (length xs) \<and> xs ! nat (indexOf xs x) = x"
  by (induction xs) (auto simp: Let_def nat_add_distrib)

lemma strip_no_prefix:
  "w \<in> set seqs \<Longrightarrow> w \<noteq> [] \<Longrightarrow> take (length w) (strip seqs s) \<noteq> w"
proof (induction seqs s rule: strip.induct)
  case (1 seqs s)
  show ?case
  proof (cases "find (\<lambda>w. w \<noteq> [] \<and> take (length w) s = w) seqs")
    case None
    then have "strip seqs s = s" by (simp add: strip.simps)
    moreover from None 1(2,3) have "take (length w) s \<noteq> w"
      by (auto simp: find_None_iff)
    ultimately show ?thesis by simp
  next
    case (Some v)
    then have "strip seqs s = strip seqs (drop (length v) s)"
      by (simp add: strip.simps)
    with 1(1) [OF Some] 1(2,3) show ?thesis by simp
  qed
qed

lemma strip_drop: "\<exists>k. strip seqs s = drop k s"
proof (induction seqs s rule: strip.induct)
  case (1 seqs s)
  show ?case
  proof (cases "find (\<lambda>w. w \<noteq> [] \<and> take (length w) s = w) seqs")
    case None
    then have "strip seqs s = drop 0 s" by (simp add: strip.simps)
    then show ?thesis by blast
  next
    case (Some v)
    then have "strip seqs s = strip seqs (drop (length v) s)"
      by (simp add: strip.simps)
    with 1 [OF Some] obtain k where "strip seqs s = drop k (drop (length v) s)" by auto
    then have "strip seqs s = drop (length v + k) s" by (simp add: add.commute)
    then show ?thesis by blast
  qed
qed

lemma white_space_nonempty: "w \<in> set white_space \<Longrightarrow> w \<noteq> []"
  by (auto simp: white_space_def)

text \<open>A trimmed string neither starts nor ends with white space.\<close>

lemma trim_ends:
  assumes "w \<in> set white_space"
  shows "take (length w) (trim s) \<noteq> w \<and> take (length w) (rev (trim s)) \<noteq> rev w"
proof
  let ?t = "strip white_space s"
  have w: "w \<noteq> []" using assms by (rule white_space_nonempty)
  obtain k where k: "strip (map rev white_space) (rev ?t) = drop k (rev ?t)"
    using strip_drop by blast
  then have t: "trim s = take (length ?t - k) ?t"
    by (simp add: trim_def rev_drop)
  show "take (length w) (trim s) \<noteq> w"
  proof
    assume a: "take (length w) (trim s) = w"
    then have "length w = min (length (trim s)) (length w)"
      by (metis length_take)
    then have "length w \<le> length (trim s)"
      by linarith
    then have "length w \<le> length ?t - k" using t by simp
    then have "take (length w) (trim s) = take (length w) ?t"
      using t by (simp add: min_def)
    with a have "take (length w) ?t = w" by simp
    with strip_no_prefix [OF assms w] show False by blast
  qed
  have "rev w \<in> set (map rev white_space)" using assms by simp
  from strip_no_prefix [OF this, of "rev ?t"] w
  show "take (length w) (rev (trim s)) \<noteq> rev w"
    by (simp add: trim_def)
qed

lemma w_in_base: "''-w'' \<in> set (base_args cfg f)"
  by (simp add: base_args_def)

lemma sample_all_dbs: "ALL_DBS sample_config"
  by code_simp

lemma listed_not_all_dbs: "\<not> ALL_DBS (load_config sample_runtime listed_env sample_argv)"
  by code_simp

lemma sample_args:
  "pg_args sample_config ''/tmp/out.json''
     = [''-h'', ''/var/run/postgresql'', ''-p'', ''5432'', ''-U'', ''postgres'', ''-w'',
        ''--all-dbs'', ''--timeout'', ''60'', ''--omit'', ''log'', ''--sql-length'', ''10000'',
        ''--statements-limit'', ''10000'', ''-f'', ''json'', ''-o'', ''/tmp/out.json'']"
  by code_simp

lemma listed_base:
  "base_args (load_config sample_runtime listed_env sample_argv) ''/tmp/out.json''
     = [''-h'', ''/var/run/postgresql'', ''-p'', ''5432'', ''-U'', ''postgres'', ''-w'',
        ''--timeout'', ''60'', ''--omit'', ''log'', ''--sql-length'', ''10000'',
        ''--statements-limit'', ''10000'', ''-f'', ''json'', ''-o'', ''/tmp/out.json'']"
  by code_simp

lemma listed_names:
  "database_names (load_config sample_runtime listed_env sample_argv) = [''db1'', ''db2'']"
  by code_simp

lemma mixed_case_args:
  "pg_args (load_config sample_runtime mixed_case_env sample_argv) ''/tmp/out.json''
     = [''-h'', ''/var/run/postgresql'', ''-p'', ''5432'', ''-U'', ''postgres'', ''-w'',
        ''--timeout'', ''60'', ''--omit'', ''log'', ''--sql-length'', ''10000'',
        ''--statements-limit'', ''10000'', ''-f'', ''json'', ''-o'', ''/tmp/out.json'',
        ''mydb'', ''sales'']"
  by code_simp

text \<open>White space outside ASCII is trimmed as well.\<close>

lemma nbsp_all_is_all: "ALL_DBS (load_config sample_runtime nbsp_all_env sample_argv)"
  by code_simp

lemma nbsp_entry_names:
  "database_names (load_config sample_runtime nbsp_entry_env sample_argv) = [''db1'', ''db2'']"
  by code_simp

lemma latin1_example:
  "toLowerCase sample_runtime [CHR 0xC3, CHR 0x89, CHR ''C'', CHR ''O'']
     = [CHR 0xC3, CHR 0xA9, CHR ''c'', CHR ''o'']"
  by code_simp

lemma mixed_case_spec: "spec_database_names ''MyDB,Sales'' = [''MyDB'', ''Sales'']"
  by code_simp

text \<open>
  C7 (as amended). Under the all-databases policy (\<open>ALL_DBS\<close>) the arguments are the fixed
  ones with \<open>--all-dbs\<close> inserted right after \<open>-w\<close>, and no database name. Otherwise they
  are the fixed ones followed by the database names: the pieces of the configured list
  \<open>PG_DATABASES\<close> between commas, each trimmed, the empty ones left out, in order; so
  each name is non-empty and neither starts nor ends with white space. The configured
  list is the setting \<^verbatim>\<open>PG_DATABASES\<close> (\<open>all\<close> when absent) trimmed and put in lower case,
  so the names are passed in lower case; the policy is all-databases when the configured
  list is \<open>all\<close> or empty. The lower case of an ASCII string has \<open>a\<close> to \<open>z\<close> for \<open>A\<close> to
  \<open>Z\<close>.
\<close>

theorem pg_args_database_selection:
  "(ALL_DBS cfg \<longrightarrow>
      (\<exists>k. 0 < k \<and> k \<le> length (base_args cfg f) \<and> base_args cfg f ! (k - 1) = ''-w''
         \<and> pg_args cfg f = take k (base_args cfg f) @ [''--all-dbs''] @ drop k (base_args cfg f)))
   \<and> (\<not> ALL_DBS cfg \<longrightarrow>
        pg_args cfg f = base_args cfg f @ database_names cfg
        \<and> database_names cfg
            = filter (\<lambda>d. d \<noteq> []) (map trim (split_on CHR '','' (PG_DATABASES cfg)))
        \<and> (\<forall>d \<in> set (database_names cfg).
              d \<noteq> [] \<and> (\<forall>w \<in> set white_space.
                          take (length w) d \<noteq> w \<and> take (length w) (rev d) \<noteq> rev w)))
   \<and> ALL_DBS (load_config rt env argv)
       = (PG_DATABASES (load_config rt env argv) = ''all''
          \<or> PG_DATABASES (load_config rt env argv) = [])
   \<and> PG_DATABASES (load_config rt env argv)
       = toLowerCase rt (trim (case env ''PG_DATABASES'' of None \<Rightarrow> ''all'' | Some v \<Rightarrow> v))
   \<and> (list_all ascii s \<longrightarrow> toLowerCase rt s = map lower_char s)"
proof (intro conjI impI)
  show "ALL_DBS (load_config rt env argv)
       = (PG_DATABASES (load_config rt env argv) = ''all''
          \<or> PG_DATABASES (load_config rt env argv) = [])"
    by (simp add: load_config_def Let_def)
next
  show "PG_DATABASES (load_config rt env argv)
       = toLowerCase rt (trim (case env ''PG_DATABASES'' of None \<Rightarrow> ''all'' | Some v \<Rightarrow> v))"
    by (simp add: load_config_def Let_def nullish_def)
next
  assume "list_all ascii s"
  then show "toLowerCase rt s = map lower_char s"
    by (simp add: toLowerCase_def)
next
  assume "ALL_DBS cfg"
  let ?b = "base_args cfg f"
  let ?i = "indexOf ?b ''-w''"
  have i: "0 \<le> ?i" "?i < int (length ?b)" "?b ! nat ?i = ''-w''"
    using indexOf_bounds [OF w_in_base, of cfg f] by simp_all
  let ?k = "nat (?i + 1)"
  have "pg_args cfg f = take ?k ?b @ [''--all-dbs''] @ drop ?k ?b"
    using \<open>ALL_DBS cfg\<close> i by (simp add: pg_args_def splice_insert_def Let_def min_def)
  moreover have "0 < ?k" "?k \<le> length ?b" "?b ! (?k - 1) = ''-w''"
    using i by (simp_all add: nat_add_distrib)
  ultimately show "\<exists>k. 0 < k \<and> k \<le> length ?b \<and> ?b ! (k - 1) = ''-w''
         \<and> pg_args cfg f = take k ?b @ [''--all-dbs''] @ drop k ?b"
    by blast
next
  assume "\<not> ALL_DBS cfg"
  then show "pg_args cfg f = base_args cfg f @ database_names cfg"
    by (simp add: pg_args_def)
next
  show "database_names cfg
            = filter (\<lambda>d. d \<noteq> []) (map trim (split_on CHR '','' (PG_DATABASES cfg)))"
    by (simp add: database_names_def)
next
  show "\<forall>d \<in> set (database_names cfg).
              d \<noteq> [] \<and> (\<forall>w \<in> set white_space.
                          take (length w) d \<noteq> w \<and> take (length w) (rev d) \<noteq> rev w)"
    using trim_ends by (auto simp: database_names_def)
qed

theorem pg_args_database_selection_witness:
  "ALL_DBS sample_config
   \<and> pg_args sample_config ''/tmp/out.json''
     = [''-h'', ''/var/run/postgresql'', ''-p'', ''5432'', ''-U'', ''postgres'', ''-w'',
        ''--all-dbs'', ''--timeout'', ''60'', ''--omit'', ''log'', ''--sql-length'', ''10000'',
        ''--statements-limit'', ''10000'', ''-f'', ''json'', ''-o'', ''/tmp/out.json'']
   \<and> \<not> ALL_DBS (load_config sample_runtime listed_env sample_argv)
   \<and> pg_args (load_config sample_runtime listed_env sample_argv) ''/tmp/out.json''
     = [''-h'', ''/var/run/postgresql'', ''-p'', ''5432'', ''-U'', ''postgres'', ''-w'',
        ''--timeout'', ''60'', ''--omit'', ''log'', ''--sql-length'', ''10000'',
        ''--statements-limit'', ''10000'', ''-f'', ''json'', ''-o'', ''/tmp/out.json'',
        ''db1'', ''db2'']"
proof -
  let ?cfg = "load_config sample_runtime listed_env sample_argv"
  have "\<not> ALL_DBS ?cfg \<longrightarrow>
          pg_args ?cfg ''/tmp/out.json'' = base_args ?cfg ''/tmp/out.json'' @ database_names ?cfg"
    using pg_args_database_selection [of ?cfg "''/tmp/out.json''"] by blast
  then have "pg_args ?cfg ''/tmp/out.json'' = base_args ?cfg ''/tmp/out.json'' @ database_names ?cfg"
    using listed_not_all_dbs by blast
  then have "pg_args ?cfg ''/tmp/out.json''
     = [''-h'', ''/var/run/postgresql'', ''-p'', ''5432'', ''-U'', ''postgres'', ''-w'',
        ''--timeout'', ''60'', ''--omit'', ''log'', ''--sql-length'', ''10000'',
        ''--statements-limit'', ''10000'', ''-f'', ''json'', ''-o'', ''/tmp/out.json'',
        ''db1'', ''db2'']"
    by (simp only: listed_base listed_names append.simps)
  then show ?thesis
    using sample_args sample_all_dbs listed_not_all_dbs by blast
qed

text \<open>
  C7 as stated fails: with the setting \<open>MyDB,Sales\<close> the names of the configured list,
  trimmed, are \<open>MyDB\<close> and \<open>Sales\<close>, while the arguments appended are \<open>mydb\<close> and
  \<open>sales\<close>, since line 23 puts the whole setting in lower case.
\<close>

theorem lower_cased_names_counterexample:
  "pg_args (load_config sample_runtime mixed_case_env sample_argv) ''/tmp/out.json''
     = [''-h'', ''/var/run/postgresql'', ''-p'', ''5432'', ''-U'', ''postgres'', ''-w'',
        ''--timeout'', ''60'', ''--omit'', ''log'', ''--sql-length'', ''10000'',
        ''--statements-limit'', ''10000'', ''-f'', ''json'', ''-o'', ''/tmp/out.json'',
        ''mydb'', ''sales'']
   \<and> spec_database_names ''MyDB,Sales'' = [''MyDB'', ''Sales'']"
  using mixed_case_args mixed_case_spec by blast

subsection \<open>One iteration of the loop\<close>

lemma no_admission_append [simp]:
  "no_admission (xs @ ys) = (no_admission xs \<and> no_admission ys)"
  by (induction xs rule: no_admission.induct) simp_all

lemma getUploadUrl_quiet:
  "\<exists>evs. snd (getUploadUrl rt cfg n reply) = Fetch Target (target_request cfg n) # evs
     \<and> no_admission evs \<and> waits evs = []"
  by (auto simp: getUploadUrl_def getUploadUrl_try_def Let_def
      split: fetch_result.splits option.splits json_result.splits)

lemma uploadFile_quiet:
  "no_admission (snd (uploadFile u raw reply)) \<and> waits (snd (uploadFile u raw reply)) = []"
  by (simp add: uploadFile_def Let_def split: fetch_result.splits)

lemma finishedUpload_quiet:
  "no_admission (snd (finishedUpload rt cfg u reply))
   \<and> waits (snd (finishedUpload rt cfg u reply)) = []"
  by (simp add: finishedUpload_def Let_def split: fetch_result.splits sum.splits)

lemma getUploadUrl_quietD:
  "getUploadUrl rt cfg n reply = (u, evs) \<Longrightarrow> no_admission evs \<and> sleep_total evs = 0"
  using getUploadUrl_quiet [of rt cfg n reply] by (auto simp: sleep_total_def)

lemma uploadFile_quietD:
  "uploadFile u raw reply = (b, evs) \<Longrightarrow> no_admission evs \<and> sleep_total evs = 0"
  using uploadFile_quiet [of u raw reply] by (auto simp: sleep_total_def)

lemma finishedUpload_quietD:
  "finishedUpload rt cfg u reply = (b, evs) \<Longrightarrow> no_admission evs \<and> sleep_total evs = 0"
  using finishedUpload_quiet [of rt cfg u reply] by (auto simp: sleep_total_def)

lemma shouldSend_admitted:
  assumes "reply = Responded r" and "ok r"
  shows "shouldSend rt cfg reply now = (Inr True, [Fetch Admission (admission_request cfg)])"
  using shouldSend_result [of rt cfg reply now] shouldSend_shape [of rt cfg reply now] assms
  by auto

lemma loop_iteration_denied:
  assumes "shouldSend rt cfg (admission_reply w) (admission_clock w) = (Inr False, evs)"
  shows "loop_iteration rt cfg w fs = (evs @ [Sleep 250], fs)"
  using assms by (simp add: loop_iteration_def loop_try_def)

lemma loop_iteration_collection_failed:
  assumes "admission_reply w = Responded r" and "ok r"
    and "sp_status (spawn_reply w) \<noteq> Some 0"
  shows "fst (loop_iteration rt cfg w fs)
           = [Fetch Admission (admission_request cfg), Log (BackendYes (serverId cfg)),
              Spawn (pg_args cfg (tmp_path cfg w)) (pg_env cfg), Unlink (tmp_path cfg w),
              Log (LoopError (ErrorObj (failure_text (spawn_reply w)))), Sleep 1000]"
  using assms shouldSend_admitted [of "admission_reply w" r rt cfg "admission_clock w"]
  by (simp add: loop_iteration_def loop_try_def runPgmetrics_def Let_def)

lemma loop_iteration_collection_failed_files:
  assumes "admission_reply w = Responded r" and "ok r"
    and "sp_status (spawn_reply w) \<noteq> Some 0" and "unlink_fault w = None"
  shows "snd (loop_iteration rt cfg w fs) = fs(tmp_path cfg w := None)"
  using assms shouldSend_admitted [of "admission_reply w" r rt cfg "admission_clock w"]
  by (auto simp: loop_iteration_def loop_try_def runPgmetrics_def unlinkSync_def Let_def
      split: option.splits)

lemma loop_iteration_files:
  assumes "admission_reply w = Responded r" and "ok r"
    and "read_fault w = None" and "unlink_fault w = None"
  shows "snd (loop_iteration rt cfg w fs) = fs(tmp_path cfg w := None)"
  using assms shouldSend_admitted [of "admission_reply w" r rt cfg "admission_clock w"]
  by (auto simp: loop_iteration_def loop_try_def runPgmetrics_def readFileSync_def
      unlinkSync_def Let_def split: option.splits prod.splits)


lemma loop_iteration_collected:
  assumes "admission_reply w = Responded r" and "ok r"
    and "sp_status (spawn_reply w) = Some 0" and "sp_written (spawn_reply w) = Some c"
    and "read_fault w = None" and "unlink_fault w = None"
  shows "\<exists>evs. fst (loop_iteration rt cfg w fs)
           = [Fetch Admission (admission_request cfg), Log (BackendYes (serverId cfg)),
              Spawn (pg_args cfg (tmp_path cfg w)) (pg_env cfg),
              ReadFile (tmp_path cfg w), Unlink (tmp_path cfg w),
              Log (SizeMB (length (read_utf8 rt c))),
              Fetch Target (target_request cfg (length (read_utf8 rt c)))] @ evs"
proof -
  obtain evs where "snd (getUploadUrl rt cfg (length (read_utf8 rt c)) (target_reply w))
      = Fetch Target (target_request cfg (length (read_utf8 rt c))) # evs"
    using getUploadUrl_quiet by blast
  then show ?thesis
    using assms shouldSend_admitted [of "admission_reply w" r rt cfg "admission_clock w"]
    by (cases "getUploadUrl rt cfg (length (read_utf8 rt c)) (target_reply w)")
       (auto simp: loop_iteration_def loop_try_def runPgmetrics_def readFileSync_def
          unlinkSync_def Let_def split: option.splits prod.splits)
qed

lemma getUploadUrl_some:
  assumes "reply = Responded t" and "ok t" and "resp_body t = JsonData d"
  shows "getUploadUrl rt cfg n reply = (b_url d, [Fetch Target (target_request cfg n)])"
  using assms by (auto simp: getUploadUrl_def getUploadUrl_try_def Let_def ok_def)

lemma loop_iteration_handshake:
  assumes "admission_reply w = Responded r" and "ok r"
    and "sp_status (spawn_reply w) = Some 0" and "sp_written (spawn_reply w) = Some c"
    and "read_fault w = None" and "unlink_fault w = None"
    and "target_reply w = Responded t" and "ok t" and "resp_body t = JsonData d"
    and "b_url d = Some u" and "u \<noteq> []"
  shows "fst (loop_iteration rt cfg w fs)
           = [Fetch Admission (admission_request cfg), Log (BackendYes (serverId cfg)),
              Spawn (pg_args cfg (tmp_path cfg w)) (pg_env cfg),
              ReadFile (tmp_path cfg w), Unlink (tmp_path cfg w),
              Log (SizeMB (length (read_utf8 rt c))),
              Fetch Target (target_request cfg (length (read_utf8 rt c))), Log (UrlLine u)]
             @ snd (uploadFile u (read_utf8 rt c) (transfer_reply w))
             @ [Log (Uploaded (fst (uploadFile u (read_utf8 rt c) (transfer_reply w))))]
             @ snd (finishedUpload rt cfg u (confirm_reply w))
             @ [Log (Finished (fst (finishedUpload rt cfg u (confirm_reply w)))), Sleep 1000]"
  using assms shouldSend_admitted [of "admission_reply w" r rt cfg "admission_clock w"]
    getUploadUrl_some [of "target_reply w" t d rt cfg "length (read_utf8 rt c)"]
  by (simp add: loop_iteration_def loop_try_def runPgmetrics_def readFileSync_def
      unlinkSync_def Let_def split: prod.splits)

lemma spaced_quiet:
  "no_admission evs \<Longrightarrow>
     spaced acc (evs @ later) = spaced (map_option (\<lambda>a. a + sleep_total evs) acc) later"
proof (induction evs arbitrary: acc)
  case Nil
  then show ?case by (cases acc) (simp_all add: sleep_total_def)
next
  case (Cons e evs)
  show ?case
  proof (cases e)
    case (Fetch site req)
    with Cons show ?thesis by (cases site) (simp_all add: sleep_total_def)
  next
    case (Sleep d)
    with Cons show ?thesis
      by (cases acc) (simp_all add: sleep_total_def add.assoc)
  qed (use Cons in \<open>simp_all add: sleep_total_def\<close>)
qed

lemma sleep_total_append [simp]: "sleep_total (xs @ ys) = sleep_total xs + sleep_total ys"
  by (simp add: sleep_total_def)

lemma sleep_total_simps [simp]:
  "sleep_total [] = 0"
  "sleep_total (Sleep d # evs) = d + sleep_total evs"
  "sleep_total (Fetch site req # evs) = sleep_total evs"
  "sleep_total (Log l # evs) = sleep_total evs"
  "sleep_total (Spawn args env # evs) = sleep_total evs"
  "sleep_total (ReadFile f # evs) = sleep_total evs"
  "sleep_total (Unlink f # evs) = sleep_total evs"
  by (simp_all add: sleep_total_def)

lemma quiet_total: "waits evs = [] \<Longrightarrow> sleep_total evs = 0"
  by (simp add: sleep_total_def)

lemma iteration_shape:
  "\<exists>rest. fst (loop_iteration rt cfg w fs) = Fetch Admission (admission_request cfg) # rest
     \<and> no_admission rest \<and> 250 \<le> sleep_total rest"
proof -
  consider (yes) "shouldSend rt cfg (admission_reply w) (admission_clock w)
        = (Inr True, [Fetch Admission (admission_request cfg)])"
    | (no) evs d where "shouldSend rt cfg (admission_reply w) (admission_clock w)
        = (Inr False, Fetch Admission (admission_request cfg) # evs @ [Sleep d])"
        "0 \<le> d" "waits evs = []" "no_admission evs"
    using shouldSend_shape [of rt cfg "admission_reply w" "admission_clock w"] by blast
  then show ?thesis
  proof cases
    case no
    then show ?thesis
      by (simp add: loop_iteration_denied quiet_total)
  next
    case yes
    then show ?thesis
      by (auto simp: loop_iteration_def loop_try_def runPgmetrics_def readFileSync_def
          unlinkSync_def Let_def
          split: option.splits prod.splits sum.splits
          dest!: getUploadUrl_quietD uploadFile_quietD finishedUpload_quietD)
  qed
qed

lemma loop_spaced:
  "(case acc of None \<Rightarrow> True | Some a \<Rightarrow> 250 \<le> a) \<Longrightarrow> spaced acc (fst (loop rt cfg ws fs))"
proof (induction ws arbitrary: acc fs)
  case Nil
  then show ?case by simp
next
  case (Cons w ws)
  obtain rest where it: "fst (loop_iteration rt cfg w fs)
      = Fetch Admission (admission_request cfg) # rest"
    "no_admission rest" "250 \<le> sleep_total rest"
    using iteration_shape [of rt cfg w fs] by blast
  obtain fs' where fs': "loop_iteration rt cfg w fs = (Fetch Admission (admission_request cfg) # rest, fs')"
    using it(1) by (cases "loop_iteration rt cfg w fs") simp
  have "spaced (Some (sleep_total rest)) (fst (loop rt cfg ws fs'))"
    using it(3) by (intro Cons.IH) simp
  then show ?case
    using Cons.prems fs' it(2)
    by (cases "loop rt cfg ws fs'") (simp add: spaced_quiet)
qed


lemma sample_id: "serverId sample_config = ''srv1''"
  by code_simp

lemma sample_clock: "string_of_int 1700000000123 = ''1700000000123''"
  by (simp add: string_of_int_def string_of_nat.simps)

lemma sample_tmp_path: "tmp_path sample_config sample_world = sample_tmp"
  by (simp add: tmp_path_def sample_world_def sample_clock sample_id sample_tmp_def)

lemma refused_tmp_path: "tmp_path sample_config refused_world = sample_tmp"
  by (simp add: tmp_path_def refused_world_def sample_world_def sample_clock sample_id
      sample_tmp_def)

lemma ill_formed_tmp_path: "tmp_path sample_config ill_formed_world = sample_tmp"
  by (simp add: tmp_path_def ill_formed_world_def sample_world_def sample_clock sample_id
      sample_tmp_def)

lemma unreadable_tmp_path: "tmp_path sample_config unreadable_world = sample_tmp"
  by (simp add: tmp_path_def unreadable_world_def sample_world_def sample_clock sample_id
      sample_tmp_def)

lemma not_launched_text: "failure_text not_launched = ''spawnSync pgmetrics ENOENT''"
  by code_simp

lemma refused_text: "failure_text refused = ''connection refused''"
  by code_simp

lemma blank_output_text: "failure_text blank_output = ''pgmetrics failed''"
  by code_simp

lemma blank_output_spec: "spec_failure_text blank_output = '' ''"
  by code_simp

lemma sample_admission:
  "admission_reply sample_world = Responded \<lparr> resp_status = 200, resp_body = JsonData no_fields \<rparr>"
  by (simp add: sample_world_def ok_reply_def)

lemma refused_admission:
  "admission_reply refused_world = Responded \<lparr> resp_status = 200, resp_body = JsonData no_fields \<rparr>"
  by (simp add: refused_world_def sample_world_def ok_reply_def)

lemma ill_formed_admission:
  "admission_reply ill_formed_world
     = Responded \<lparr> resp_status = 200, resp_body = JsonData no_fields \<rparr>"
  by (simp add: ill_formed_world_def sample_world_def ok_reply_def)

lemma unreadable_admission:
  "admission_reply unreadable_world
     = Responded \<lparr> resp_status = 200, resp_body = JsonData no_fields \<rparr>"
  by (simp add: unreadable_world_def sample_world_def ok_reply_def)

lemma ok_200: "ok \<lparr> resp_status = 200, resp_body = b \<rparr>"
  by (simp add: ok_def)

lemma sample_decoded: "read_utf8 sample_runtime ''{}'' = ''{}''"
  unfolding sample_runtime_def by code_simp

lemma ill_formed_decoded: "read_utf8 sample_runtime [CHR 0xFF] = [CHR 0xEF, CHR 0xBF, CHR 0xBD]"
  unfolding sample_runtime_def by code_simp

lemma example_key: "storage_key ''/abc123.json'' = ''abc123''"
  by code_simp

lemma example_bucket: "storage_bucket example_url = ''bucket1''"
  by code_simp

text \<open>
  C6 (as amended). When the admission check says yes and the collector does not exit
  with status 0 (a non-zero status, or no status at all when it could not be launched),
  \<open>runPgmetrics\<close> throws an error whose message is the captured error output, trimmed,
  when that is not empty, else the message of the launch error when there is one, else
  \<open>pgmetrics failed\<close>. The iteration then consists of the admission request, the
  collector's run, the attempt to remove the temporary file, the console line with the
  error's message and a sleep of 1000 ms: no request for an upload URL and no transfer.
  Unless the file system refuses the removal, the temporary file does not exist
  afterwards.
\<close>

theorem collection_failure:
  assumes "admission_reply w = Responded r" and "ok r"
    and "sp_status (spawn_reply w) \<noteq> Some 0"
  shows "fst (runPgmetrics cfg (tmp_path cfg w) (spawn_reply w) fs)
           = Inl (ErrorObj (failure_text (spawn_reply w)))
       \<and> failure_text (spawn_reply w)
           = (case sp_stderr (spawn_reply w) of
                Some s \<Rightarrow>
                  if trim s \<noteq> [] then trim s
                  else (case sp_error (spawn_reply w) of
                          Some m \<Rightarrow> if m \<noteq> [] then m else ''pgmetrics failed''
                        | None \<Rightarrow> ''pgmetrics failed'')
              | None \<Rightarrow>
                  (case sp_error (spawn_reply w) of
                     Some m \<Rightarrow> if m \<noteq> [] then m else ''pgmetrics failed''
                   | None \<Rightarrow> ''pgmetrics failed''))
       \<and> fst (loop_iteration rt cfg w fs)
           = [Fetch Admission (admission_request cfg), Log (BackendYes (serverId cfg)),
              Spawn (pg_args cfg (tmp_path cfg w)) (pg_env cfg), Unlink (tmp_path cfg w),
              Log (LoopError (ErrorObj (failure_text (spawn_reply w)))), Sleep 1000]
       \<and> (unlink_fault w = None \<longrightarrow>
            snd (loop_iteration rt cfg w fs) = fs(tmp_path cfg w := None))"
proof (intro conjI impI)
  show "fst (runPgmetrics cfg (tmp_path cfg w) (spawn_reply w) fs)
           = Inl (ErrorObj (failure_text (spawn_reply w)))"
    using assms(3) by (simp add: runPgmetrics_def Let_def)
  show "failure_text (spawn_reply w)
           = (case sp_stderr (spawn_reply w) of
                Some s \<Rightarrow>
                  if trim s \<noteq> [] then trim s
                  else (case sp_error (spawn_reply w) of
                          Some m \<Rightarrow> if m \<noteq> [] then m else ''pgmetrics failed''
                        | None \<Rightarrow> ''pgmetrics failed'')
              | None \<Rightarrow>
                  (case sp_error (spawn_reply w) of
                     Some m \<Rightarrow> if m \<noteq> [] then m else ''pgmetrics failed''
                   | None \<Rightarrow> ''pgmetrics failed''))"
    by (simp add: failure_text_def truthy_str_def nullish_def split: option.splits)
  show "fst (loop_iteration rt cfg w fs)
           = [Fetch Admission (admission_request cfg), Log (BackendYes (serverId cfg)),
              Spawn (pg_args cfg (tmp_path cfg w)) (pg_env cfg), Unlink (tmp_path cfg w),
              Log (LoopError (ErrorObj (failure_text (spawn_reply w)))), Sleep 1000]"
    using assms by (rule loop_iteration_collection_failed)
next
  assume "unlink_fault w = None"
  with assms show "snd (loop_iteration rt cfg w fs) = fs(tmp_path cfg w := None)"
    by (rule loop_iteration_collection_failed_files)
qed

theorem collection_failure_witness:
  "fst (loop_iteration sample_runtime sample_config refused_world Map.empty)
     = [Fetch Admission (admission_request sample_config), Log (BackendYes ''srv1''),
        Spawn (pg_args sample_config sample_tmp) (pg_env sample_config), Unlink sample_tmp,
        Log (LoopError (ErrorObj ''connection refused'')), Sleep 1000]
   \<and> snd (loop_iteration sample_runtime sample_config refused_world Map.empty) sample_tmp = None
   \<and> failure_text not_launched = ''spawnSync pgmetrics ENOENT''"
proof -
  have c: "sp_status (spawn_reply refused_world) \<noteq> Some 0"
    by (simp add: refused_world_def refused_def)
  have d: "spawn_reply refused_world = refused"
    by (simp add: refused_world_def)
  have u: "unlink_fault refused_world = None"
    by (simp add: refused_world_def sample_world_def)
  show ?thesis
    using collection_failure [OF refused_admission ok_200 c, of sample_config Map.empty
        sample_runtime] u
    by (simp add: refused_tmp_path d refused_text sample_id not_launched_text)
qed

text \<open>
  C6 as stated fails: with status 1 and an error output of a single space, which is not
  empty, the error does not carry that output but the generic message, since line 235
  trims the output before it tests it.
\<close>

theorem blank_output_counterexample:
  "fst (runPgmetrics sample_config sample_tmp blank_output Map.empty)
     = Inl (ErrorObj ''pgmetrics failed'')
   \<and> spec_failure_text blank_output = '' ''"
  by (simp add: runPgmetrics_def Let_def blank_output_text blank_output_spec)
    (simp add: blank_output_def)

text \<open>
  C2 (as amended). After an iteration in which the admission check said yes and the file
  system refused neither the read nor the removal of the temporary file, whatever the
  collector and the service did, the temporary file does not exist and every other file
  is as it was. When the collector exits with status 0 having written the bytes \<open>c\<close>,
  the file is read and removed before the request for an upload URL, and the size the
  loop reports and sends in the header \<open>x-content-length\<close> is the number of bytes of the
  decoded content as UTF-8 (the console line shows it in MB); it is the number of bytes
  of \<open>c\<close> when decoding leaves \<open>c\<close> as it is, that is when \<open>c\<close> is well-formed UTF-8.
\<close>

theorem temp_file_removed:
  assumes "admission_reply w = Responded r" and "ok r"
    and "read_fault w = None" and "unlink_fault w = None"
  shows "snd (loop_iteration rt cfg w fs) = fs(tmp_path cfg w := None)
       \<and> (\<forall>c. sp_status (spawn_reply w) = Some 0 \<and> sp_written (spawn_reply w) = Some c \<longrightarrow>
            (\<exists>evs. fst (loop_iteration rt cfg w fs)
               = [Fetch Admission (admission_request cfg), Log (BackendYes (serverId cfg)),
                  Spawn (pg_args cfg (tmp_path cfg w)) (pg_env cfg),
                  ReadFile (tmp_path cfg w), Unlink (tmp_path cfg w),
                  Log (SizeMB (length (read_utf8 rt c))),
                  Fetch Target (target_request cfg (length (read_utf8 rt c)))] @ evs)
            \<and> req_headers (target_request cfg (length (read_utf8 rt c)))
                = [(''x-server-id'', serverId cfg),
                   (''x-content-length'', string_of_nat (length (read_utf8 rt c)))]
            \<and> (read_utf8 rt c = c \<longrightarrow> length (read_utf8 rt c) = length c))"
proof (intro conjI allI impI)
  show "snd (loop_iteration rt cfg w fs) = fs(tmp_path cfg w := None)"
    using assms by (rule loop_iteration_files)
next
  fix c
  assume "sp_status (spawn_reply w) = Some 0 \<and> sp_written (spawn_reply w) = Some c"
  then show "\<exists>evs. fst (loop_iteration rt cfg w fs)
               = [Fetch Admission (admission_request cfg), Log (BackendYes (serverId cfg)),
                  Spawn (pg_args cfg (tmp_path cfg w)) (pg_env cfg),
                  ReadFile (tmp_path cfg w), Unlink (tmp_path cfg w),
                  Log (SizeMB (length (read_utf8 rt c))),
                  Fetch Target (target_request cfg (length (read_utf8 rt c)))] @ evs"
    using assms loop_iteration_collected [of w r c rt cfg fs] by blast
next
  fix c
  show "req_headers (target_request cfg (length (read_utf8 rt c)))
                = [(''x-server-id'', serverId cfg),
                   (''x-content-length'', string_of_nat (length (read_utf8 rt c)))]"
    by (simp add: target_request_def)
next
  fix c
  assume "read_utf8 rt c = c"
  then show "length (read_utf8 rt c) = length c" by simp
qed

lemma sample_faults: "read_fault sample_world = None" "unlink_fault sample_world = None"
  by (simp_all add: sample_world_def)

lemma refused_faults: "read_fault refused_world = None" "unlink_fault refused_world = None"
  by (simp_all add: refused_world_def sample_world_def)

lemma ill_formed_faults:
  "read_fault ill_formed_world = None" "unlink_fault ill_formed_world = None"
  by (simp_all add: ill_formed_world_def sample_world_def)

theorem temp_file_removed_witness:
  "snd (loop_iteration sample_runtime sample_config sample_world Map.empty) sample_tmp = None
   \<and> (\<exists>evs. fst (loop_iteration sample_runtime sample_config sample_world Map.empty)
         = [Fetch Admission (admission_request sample_config), Log (BackendYes ''srv1''),
            Spawn (pg_args sample_config sample_tmp) (pg_env sample_config),
            ReadFile sample_tmp, Unlink sample_tmp, Log (SizeMB 2),
            Fetch Target (target_request sample_config 2)] @ evs)
   \<and> req_headers (target_request sample_config 2)
       = [(''x-server-id'', ''srv1''), (''x-content-length'', ''2'')]
   \<and> snd (loop_iteration sample_runtime sample_config refused_world [sample_tmp \<mapsto> ''{''])
         sample_tmp = None"
proof -
  have c: "sp_status (spawn_reply sample_world) = Some 0
           \<and> sp_written (spawn_reply sample_world) = Some ''{}''"
    by (simp add: sample_world_def collected_def)
  have two: "string_of_nat (Suc (Suc 0)) = ''2''"
    by (simp add: string_of_nat.simps)
  show ?thesis
    using temp_file_removed [OF sample_admission ok_200 sample_faults,
        of sample_runtime sample_config Map.empty] c
      temp_file_removed [OF refused_admission ok_200 refused_faults,
        of sample_runtime sample_config "[sample_tmp \<mapsto> ''{'']"]
    by (simp add: sample_tmp_path refused_tmp_path sample_id two numeral_2_eq_2 sample_decoded)
qed

lemma sample_target:
  "target_reply sample_world
     = Responded \<lparr> resp_status = 200,
                   resp_body = JsonData (no_fields \<lparr> b_url := Some example_url \<rparr>) \<rparr>"
  by (simp add: sample_world_def)

lemma ill_formed_target:
  "target_reply ill_formed_world
     = Responded \<lparr> resp_status = 200,
                   resp_body = JsonData (no_fields \<lparr> b_url := Some example_url \<rparr>) \<rparr>"
  by (simp add: ill_formed_world_def sample_world_def)

lemma example_target_url:
  "resp_body \<lparr> resp_status = 200,
                resp_body = JsonData (no_fields \<lparr> b_url := Some example_url \<rparr>) \<rparr>
     = JsonData (no_fields \<lparr> b_url := Some example_url \<rparr>)"
  "b_url (no_fields \<lparr> b_url := Some example_url \<rparr>) = Some example_url"
  "example_url \<noteq> []"
  by (simp_all add: example_url_def)

lemma sample_pathname: "url_pathname sample_runtime example_url = Inr ''/abc123.json''"
  by (simp add: sample_runtime_def example_pathname)

lemma three: "string_of_nat (Suc (Suc (Suc 0))) = ''3''"
  by (simp add: string_of_nat.simps)

text \<open>
  C2 as stated fails: when the collector writes a file of the single byte \<open>FF\<close>, which is
  no UTF-8, the decoded content is U+FFFD, and the size reported and sent is 3, not 1.
\<close>

theorem ill_formed_size_counterexample:
  "fst (loop_iteration sample_runtime sample_config ill_formed_world Map.empty)
     = [Fetch Admission (admission_request sample_config), Log (BackendYes ''srv1''),
        Spawn (pg_args sample_config sample_tmp) (pg_env sample_config),
        ReadFile sample_tmp, Unlink sample_tmp, Log (SizeMB 3),
        Fetch Target (target_request sample_config 3), Log (UrlLine example_url),
        Fetch Transfer (transfer_request example_url [CHR 0xEF, CHR 0xBF, CHR 0xBD]),
        Log (Uploaded False),
        Fetch Confirm (confirm_request sample_config ''abc123'' ''bucket1''),
        Log (Finished True), Sleep 1000]
   \<and> req_headers (target_request sample_config 3)
       = [(''x-server-id'', ''srv1''), (''x-content-length'', ''3'')]
   \<and> sp_written (spawn_reply ill_formed_world) = Some [CHR 0xFF]
   \<and> length [CHR 0xFF] = 1"
proof -
  have c: "sp_status (spawn_reply ill_formed_world) = Some 0"
    "sp_written (spawn_reply ill_formed_world) = Some [CHR 0xFF]"
    by (simp_all add: ill_formed_world_def ill_formed_def)
  have replies: "transfer_reply ill_formed_world = Responded \<lparr> resp_status = 500,
                           resp_body = ParseError (ErrorObj ''Unexpected token'') \<rparr>"
    "confirm_reply ill_formed_world = ok_reply"
    by (simp_all add: ill_formed_world_def sample_world_def)
  show ?thesis
    using loop_iteration_handshake [OF ill_formed_admission ok_200 c ill_formed_faults
        ill_formed_target ok_200 example_target_url, of sample_runtime sample_config Map.empty]
    by (simp add: ill_formed_tmp_path sample_id replies ok_def ok_reply_def ill_formed_decoded
        uploadFile_def finishedUpload_def sample_pathname example_key example_bucket
        target_request_def three numeral_3_eq_3 c)
qed

text \<open>
  The read of line 264 is outside the inner \<^verbatim>\<open>try\<close>: when the file system refuses it,
  the file that the collector wrote stays.
\<close>

lemma refused_read_leaves_file:
  "snd (loop_iteration sample_runtime sample_config unreadable_world Map.empty) sample_tmp
     = Some ''{}''"
  using shouldSend_admitted [OF unreadable_admission ok_200, of sample_runtime sample_config
      "admission_clock unreadable_world"]
  by (simp add: loop_iteration_def loop_try_def runPgmetrics_def readFileSync_def Let_def
      unreadable_tmp_path)
    (simp add: unreadable_world_def sample_world_def collected_def)

text \<open>
  C4. When the service hands out a non-empty upload URL (the collector has written its
  file, and the file has been read and removed), the iteration goes on with the
  transfer, the console line with its outcome, the call of \<open>finishedUpload\<close>, the
  console line with its outcome, and a sleep of 1000 ms, whatever the outcome of the
  transfer is (\<open>false\<close> for a status that is no success and for a rejected \<^verbatim>\<open>fetch\<close>).
  For a URL that parses, \<open>finishedUpload\<close> sends the confirmation request.
\<close>

theorem handshake_always_confirms:
  assumes "admission_reply w = Responded r" and "ok r"
    and "sp_status (spawn_reply w) = Some 0" and "sp_written (spawn_reply w) = Some c"
    and "read_fault w = None" and "unlink_fault w = None"
    and "target_reply w = Responded t" and "ok t" and "resp_body t = JsonData d"
    and "b_url d = Some u" and "u \<noteq> []"
  shows "fst (loop_iteration rt cfg w fs)
           = [Fetch Admission (admission_request cfg), Log (BackendYes (serverId cfg)),
              Spawn (pg_args cfg (tmp_path cfg w)) (pg_env cfg),
              ReadFile (tmp_path cfg w), Unlink (tmp_path cfg w),
              Log (SizeMB (length (read_utf8 rt c))),
              Fetch Target (target_request cfg (length (read_utf8 rt c))), Log (UrlLine u)]
             @ snd (uploadFile u (read_utf8 rt c) (transfer_reply w))
             @ [Log (Uploaded (fst (uploadFile u (read_utf8 rt c) (transfer_reply w))))]
             @ snd (finishedUpload rt cfg u (confirm_reply w))
             @ [Log (Finished (fst (finishedUpload rt cfg u (confirm_reply w)))), Sleep 1000]
       \<and> uploadFile u (read_utf8 rt c) (transfer_reply w)
           = (case transfer_reply w of
                Responded p \<Rightarrow> (ok p, [Fetch Transfer (transfer_request u (read_utf8 rt c))])
              | Threw err \<Rightarrow>
                  (False, [Fetch Transfer (transfer_request u (read_utf8 rt c)),
                           Log (UploadCaught (message_or err ''Unknown error''))]))
       \<and> (\<forall>p. url_pathname rt u = Inr p \<longrightarrow>
             finishedUpload rt cfg u (confirm_reply w)
               = (case confirm_reply w of
                    Responded c \<Rightarrow>
                      (ok c, [Fetch Confirm (confirm_request cfg (storage_key p) (storage_bucket u))])
                  | Threw err \<Rightarrow>
                      (False, [Fetch Confirm (confirm_request cfg (storage_key p) (storage_bucket u)),
                               Log (FinishedCaught (message_or err ''Unknown error''))])))"
proof (intro conjI allI impI)
  show "fst (loop_iteration rt cfg w fs)
           = [Fetch Admission (admission_request cfg), Log (BackendYes (serverId cfg)),
              Spawn (pg_args cfg (tmp_path cfg w)) (pg_env cfg),
              ReadFile (tmp_path cfg w), Unlink (tmp_path cfg w),
              Log (SizeMB (length (read_utf8 rt c))),
              Fetch Target (target_request cfg (length (read_utf8 rt c))), Log (UrlLine u)]
             @ snd (uploadFile u (read_utf8 rt c) (transfer_reply w))
             @ [Log (Uploaded (fst (uploadFile u (read_utf8 rt c) (transfer_reply w))))]
             @ snd (finishedUpload rt cfg u (confirm_reply w))
             @ [Log (Finished (fst (finishedUpload rt cfg u (confirm_reply w)))), Sleep 1000]"
    using assms by (rule loop_iteration_handshake)
next
  show "uploadFile u (read_utf8 rt c) (transfer_reply w)
           = (case transfer_reply w of
                Responded p \<Rightarrow> (ok p, [Fetch Transfer (transfer_request u (read_utf8 rt c))])
              | Threw err \<Rightarrow>
                  (False, [Fetch Transfer (transfer_request u (read_utf8 rt c)),
                           Log (UploadCaught (message_or err ''Unknown error''))]))"
    by (simp add: uploadFile_def Let_def split: fetch_result.splits)
next
  fix p
  assume "url_pathname rt u = Inr p"
  then show "finishedUpload rt cfg u (confirm_reply w)
               = (case confirm_reply w of
                    Responded c \<Rightarrow>
                      (ok c, [Fetch Confirm (confirm_request cfg (storage_key p) (storage_bucket u))])
                  | Threw err \<Rightarrow>
                      (False, [Fetch Confirm (confirm_request cfg (storage_key p) (storage_bucket u)),
                               Log (FinishedCaught (message_or err ''Unknown error''))]))"
    by (simp add: finishedUpload_def Let_def split: fetch_result.splits)
qed

theorem handshake_always_confirms_witness:
  "fst (loop_iteration sample_runtime sample_config sample_world Map.empty)
     = [Fetch Admission (admission_request sample_config), Log (BackendYes ''srv1''),
        Spawn (pg_args sample_config sample_tmp) (pg_env sample_config),
        ReadFile sample_tmp, Unlink sample_tmp, Log (SizeMB 2),
        Fetch Target (target_request sample_config 2), Log (UrlLine example_url),
        Fetch Transfer (transfer_request example_url ''{}''), Log (Uploaded False),
        Fetch Confirm (confirm_request sample_config ''abc123'' ''bucket1''),
        Log (Finished True), Sleep 1000]"
proof -
  have c: "sp_status (spawn_reply sample_world) = Some 0"
    "sp_written (spawn_reply sample_world) = Some ''{}''"
    by (simp_all add: sample_world_def collected_def)
  have replies: "transfer_reply sample_world = Responded \<lparr> resp_status = 500,
                           resp_body = ParseError (ErrorObj ''Unexpected token'') \<rparr>"
    "confirm_reply sample_world = ok_reply"
    by (simp_all add: sample_world_def)
  show ?thesis
    using handshake_always_confirms [OF sample_admission ok_200 c sample_faults sample_target
        ok_200 example_target_url, of sample_runtime sample_config Map.empty] sample_pathname
    by (simp add: sample_tmp_path sample_id replies ok_def ok_reply_def example_key example_bucket
        numeral_2_eq_2 sample_decoded)
qed

text \<open>
  C10. When the admission check says no, the iteration is the check, which ends with its
  own sleep of \<open>d \<ge> 0\<close> ms, followed by a sleep of 250 ms, and nothing else. In every run
  of the loop, each admission request but the first comes after sleeps of at least
  250 ms in total since the admission request before it.
\<close>

theorem denial_backoff:
  "(fst (shouldSend rt cfg (admission_reply w) (admission_clock w)) = Inr False \<longrightarrow>
      (\<exists>evs d. snd (shouldSend rt cfg (admission_reply w) (admission_clock w))
                  = Fetch Admission (admission_request cfg) # evs @ [Sleep d]
         \<and> 0 \<le> d \<and> waits evs = [] \<and> no_admission evs
         \<and> loop_iteration rt cfg w fs
             = (Fetch Admission (admission_request cfg) # evs @ [Sleep d, Sleep 250], fs)))
   \<and> spaced None (fst (loop rt cfg ws fs))"
proof (intro conjI impI)
  assume denied: "fst (shouldSend rt cfg (admission_reply w) (admission_clock w)) = Inr False"
  then obtain evs d where s: "shouldSend rt cfg (admission_reply w) (admission_clock w)
        = (Inr False, Fetch Admission (admission_request cfg) # evs @ [Sleep d])"
      "0 \<le> d" "waits evs = []" "no_admission evs"
    using shouldSend_shape [of rt cfg "admission_reply w" "admission_clock w"] by auto
  then have "loop_iteration rt cfg w fs
             = (Fetch Admission (admission_request cfg) # evs @ [Sleep d, Sleep 250], fs)"
    using loop_iteration_denied [OF s(1), of fs] by simp
  with s show "\<exists>evs d. snd (shouldSend rt cfg (admission_reply w) (admission_clock w))
                  = Fetch Admission (admission_request cfg) # evs @ [Sleep d]
         \<and> 0 \<le> d \<and> waits evs = [] \<and> no_admission evs
         \<and> loop_iteration rt cfg w fs
             = (Fetch Admission (admission_request cfg) # evs @ [Sleep d, Sleep 250], fs)"
    by auto
next
  show "spaced None (fst (loop rt cfg ws fs))"
    by (rule loop_spaced) simp
qed

lemma denied_send:
  "shouldSend sample_runtime sample_config (admission_reply denied_world) (admission_clock denied_world)
     = (Inr False, [Fetch Admission (admission_request sample_config),
                    Log (Precheck403 ''Forbidden'' []), Log Blocked403, Sleep 30000])"
  by (simp add: denied_world_def forbidden_reply_def shouldSend_def shouldSend_try_def
      json_catch_def error_only_def no_fields_def nullish_def reason_suffix_def truthy_str_def)

theorem denial_backoff_witness:
  "fst (loop_iteration sample_runtime sample_config denied_world Map.empty)
     = [Fetch Admission (admission_request sample_config),
        Log (Precheck403 ''Forbidden'' []), Log Blocked403, Sleep 30000, Sleep 250]
   \<and> spaced None (fst (loop sample_runtime sample_config [denied_world, denied_world, sample_world]
                     Map.empty))"
  using denial_backoff [of sample_runtime sample_config denied_world Map.empty
      "[denied_world, denied_world, sample_world]"]
  by (auto simp: denied_send)

end
